theory Spec2Isabelle
  imports Main "HOL-Library.Sublist" "HOL-Library.AList"
begin

section \<open>Python values, strings and dictionaries\<close>

text \<open>
  Text is a \<^typ>\<open>string\<close>, one \<^typ>\<open>char\<close> per character, and the model covers ASCII
  text: the whitespace, digit and word classes and the case mappings below are Python's
  on the ASCII range, and a character outside it is an ordinary character that no class
  contains and no case mapping changes.
\<close>

datatype pyval = PyStr string | PyInt int | PyNone

text \<open>Python's truth value of a record value, as \<open>if v\<close> tests it.\<close>

fun truthy :: "pyval \<Rightarrow> bool" where
  "truthy (PyStr s) = (s \<noteq> [])"
| "truthy (PyInt n) = (n \<noteq> 0)"
| "truthy PyNone = False"

text \<open>
  A dictionary keeps its keys in insertion order; assigning to a key that is present
  replaces the value in place (\<^const>\<open>AList.update\<close>).
\<close>

type_synonym rawdict = "(string \<times> string) list"
type_synonym pydict = "(string \<times> pyval) list"

definition dict_get :: "('k \<times> 'v) list \<Rightarrow> 'k \<Rightarrow> 'v \<Rightarrow> 'v" where
  "dict_get d k dflt = (case map_of d k of None \<Rightarrow> dflt | Some v \<Rightarrow> v)"

definition newline :: char where
  "newline = CHR 0x0A"

definition isspace :: "char \<Rightarrow> bool" where
  "isspace c = (c \<in> set [CHR 0x09, CHR 0x0A, CHR 0x0B, CHR 0x0C, CHR 0x0D,
                          CHR 0x1C, CHR 0x1D, CHR 0x1E, CHR 0x1F, CHR 0x20])"

definition isdigit :: "char \<Rightarrow> bool" where
  "isdigit c = (c \<in> set ''0123456789'')"

text \<open>The class \<open>\w\<close> of the regular expressions.\<close>

definition isword :: "char \<Rightarrow> bool" where
  "isword c = (c \<in> set ''abcdefghijklmnopqrstuvwxyzABCDEFGHIJKLMNOPQRSTUVWXYZ0123456789_'')"

definition strip :: "string \<Rightarrow> string" where
  "strip s = rev (dropWhile isspace (rev (dropWhile isspace s)))"

definition upper_char :: "char \<Rightarrow> char" where
  "upper_char c =
     (case map_of (zip ''abcdefghijklmnopqrstuvwxyz'' ''ABCDEFGHIJKLMNOPQRSTUVWXYZ'') c of
        None \<Rightarrow> c | Some u \<Rightarrow> u)"

definition lower_char :: "char \<Rightarrow> char" where
  "lower_char c =
     (case map_of (zip ''ABCDEFGHIJKLMNOPQRSTUVWXYZ'' ''abcdefghijklmnopqrstuvwxyz'') c of
        None \<Rightarrow> c | Some l \<Rightarrow> l)"

definition upper :: "string \<Rightarrow> string" where
  "upper s = map upper_char s"

definition lower :: "string \<Rightarrow> string" where
  "lower s = map lower_char s"

text \<open>\<open>sub in s\<close>: the substring test.\<close>

fun contains :: "string \<Rightarrow> string \<Rightarrow> bool" where
  "contains sub [] = (sub = [])"
| "contains sub (c # cs) = (prefix sub (c # cs) \<or> contains sub cs)"

text \<open>\<open>any(k in s for k in kws)\<close>.\<close>

definition any_in :: "string list \<Rightarrow> string \<Rightarrow> bool" where
  "any_in kws s = list_ex (\<lambda>k. contains k s) kws"

text \<open>
  \<open>s.split(sep)\<close>: the pieces between the occurrences of \<open>sep\<close>, found from the left
  without overlap. Python raises ValueError on an empty separator; every separator of
  the program is a non-empty constant, and the model then returns the text unsplit.
\<close>

fun split_from :: "string \<Rightarrow> string \<Rightarrow> string \<Rightarrow> string list" where
  "split_from sep acc [] = [rev acc]"
| "split_from sep acc (c # cs) =
     (if sep \<noteq> [] \<and> prefix sep (c # cs)
      then rev acc # split_from sep [] (drop (length sep - 1) cs)
      else split_from sep (c # acc) cs)"

definition str_split :: "string \<Rightarrow> string \<Rightarrow> string list" where
  "str_split s sep = split_from sep [] s"

section \<open>The error-report parser (\<open>SSHManager.collect_errpt_data\<close>)\<close>

text \<open>
  The parser tests each line against a chain of \<open>if\<close>/\<open>elif\<close> branches of one shape,
  \<open>if M in line: parts = line.split(M); if len(parts) == 2: current_entry[K] = parts[1].strip()\<close>.
  The table lists the pairs \<open>(M, K)\<close> in the order of the chain; the first marker the line
  contains selects the branch.
\<close>

definition field_markers :: "(string \<times> string) list" where
  "field_markers =
    [(''IDENTIFIER:'', ''error_id''),
     (''Timestamp:'', ''timestamp''),
     (''Sequence Number:'', ''sequence_number''),
     (''Machine Id:'', ''machine_id''),
     (''Node Id:'', ''node_id''),
     (''Class:'', ''class''),
     (''Type:'', ''type''),
     (''Resource Name:'', ''resource_name''),
     (''Resource Class:'', ''resource_class''),
     (''Resource Type:'', ''resource_type''),
     (''Location:'', ''location_code''),
     (''VPD:'', ''vpd''),
     (''Description:'', ''description''),
     (''Probable Causes:'', ''probable_causes''),
     (''User Causes:'', ''user_causes''),
     (''Install Causes:'', ''install_causes''),
     (''Failure Causes:'', ''failure_causes''),
     (''Recommended Actions:'', ''recommended_actions''),
     (''Detail Data:'', ''detail_data'')]"

text \<open>The branch a (stripped) line takes, if any.\<close>

definition line_branch :: "string \<Rightarrow> (string \<times> string) option" where
  "line_branch line = find (\<lambda>(m, k). contains m line) field_markers"

text \<open>The effect of one non-blank (stripped) line on the open record.\<close>

definition store_line :: "string \<Rightarrow> rawdict \<Rightarrow> rawdict" where
  "store_line line current_entry =
     (case line_branch line of
        None \<Rightarrow> current_entry
      | Some (m, k) \<Rightarrow>
          (let parts = str_split line m
           in if length parts = 2 then AList.update k (strip (parts ! 1)) current_entry
              else current_entry))"

text \<open>
  The loop over the lines, with the open record \<open>current_entry\<close> and the records emitted
  so far; the first equation is the code after the loop.
\<close>

fun parse_errpt_lines :: "string list \<Rightarrow> rawdict \<Rightarrow> rawdict list \<Rightarrow> rawdict list" where
  "parse_errpt_lines [] current_entry errpt_data =
     (if current_entry \<noteq> [] then errpt_data @ [current_entry] else errpt_data)"
| "parse_errpt_lines (l # ls) current_entry errpt_data =
     (let line = strip l
      in if line = []
         then (if current_entry \<noteq> []
               then parse_errpt_lines ls [] (errpt_data @ [current_entry])
               else parse_errpt_lines ls current_entry errpt_data)
         else parse_errpt_lines ls (store_line line current_entry) errpt_data)"

definition parse_errpt :: "string \<Rightarrow> rawdict list" where
  "parse_errpt stdout = parse_errpt_lines (str_split stdout [newline]) [] []"

section \<open>The error-report collector (\<open>ErrptCollector\<close>)\<close>

definition extract_severity :: "string \<Rightarrow> string" where
  "extract_severity error_id =
     (if error_id = [] then ''UNKNOWN''
      else
        (let u = upper error_id;
             by_keyword =
               (if any_in [''CRITICAL'', ''FATAL'', ''PANIC''] u then ''H''
                else if any_in [''ERROR'', ''FAIL''] u then ''S''
                else if any_in [''WARN'', ''WARNING''] u then ''M''
                else ''L'')
         in if any_in [''H'', ''S'', ''M'', ''L''] u
            then (case find (\<lambda>sev. contains sev u) [''H'', ''S'', ''M'', ''L''] of
                    Some sev \<Rightarrow> sev
                  | None \<Rightarrow> by_keyword)
            else by_keyword))"

record server_config =
  name :: string
  hostname :: string

text \<open>The dictionary comprehension \<open>{k: v for k, v in d.items() if v}\<close>.\<close>

definition clean_empty :: "pydict \<Rightarrow> pydict" where
  "clean_empty d = filter (\<lambda>(k, v). truthy v) d"

text \<open>
  The dictionary literal \<open>processed_entry\<close> of \<open>_process_errpt_data\<close>, before the empty
  values are removed; \<open>gets k\<close> is \<open>entry.get(k, '')\<close>.
\<close>

definition errpt_processed_entry :: "server_config \<Rightarrow> rawdict \<Rightarrow> pydict" where
  "errpt_processed_entry cfg entry =
     (let severity = extract_severity (dict_get entry ''error_id'' []);
          gets = (\<lambda>k. PyStr (dict_get entry k []))
      in
        [(''severity'', PyStr severity),
         (''error_id'', gets ''error_id''),
         (''resource_name'', gets ''resource_name''),
         (''description'', gets ''description''),
         (''resource_type'', gets ''resource_type''),
         (''resource_class'', gets ''resource_class''),
         (''sequence_number'',
            (case map_of entry ''sequence_number'' of None \<Rightarrow> PyInt 0 | Some s \<Rightarrow> PyStr s)),
         (''machine_id'', gets ''machine_id''),
         (''node_id'', gets ''node_id''),
         (''class'', gets ''class''),
         (''type'', gets ''type''),
         (''resource_id'', gets ''resource_id''),
         (''logical_resource_id'', gets ''logical_resource_id''),
         (''location_code'', gets ''location_code''),
         (''vpd'', gets ''vpd''),
         (''timestamp'', gets ''timestamp''),
         (''probable_causes'', gets ''probable_causes''),
         (''user_causes'', gets ''user_causes''),
         (''install_causes'', gets ''install_causes''),
         (''failure_causes'', gets ''failure_causes''),
         (''recommended_actions'', gets ''recommended_actions''),
         (''detail_data'', gets ''detail_data''),
         (''server_name'', PyStr (name cfg)),
         (''hostname'', PyStr (hostname cfg))])"

definition process_errpt_entry :: "server_config \<Rightarrow> rawdict \<Rightarrow> pydict" where
  "process_errpt_entry cfg entry = clean_empty (errpt_processed_entry cfg entry)"

definition process_errpt_data :: "rawdict list \<Rightarrow> server_config \<Rightarrow> pydict list" where
  "process_errpt_data errpt_data cfg = map (process_errpt_entry cfg) errpt_data"

section \<open>The remote execution and the collection of raw data (\<open>SSHManager\<close>)\<close>

text \<open>
  \<open>execute_command\<close> is the remote shell: a command gives \<open>(success, stdout, stderr)\<close>
  and never raises. The model takes it as a function of the command.
\<close>

type_synonym exec = "string \<Rightarrow> bool \<times> string \<times> string"

definition errpt_command :: "string \<Rightarrow> string" where
  "errpt_command time_range =
     (if time_range = ''1h'' then ''errpt -a -s $(date -d '1 hour ago' +%m%d%H%M%y)''
      else if time_range = ''1d'' then ''errpt -a -s $(date -d '1 day ago' +%m%d%H%M%y)''
      else if time_range = ''1w'' then ''errpt -a -s $(date -d '1 week ago' +%m%d%H%M%y)''
      else ''errpt -a'')"

definition collect_errpt_data :: "exec \<Rightarrow> string \<Rightarrow> rawdict list" where
  "collect_errpt_data exec time_range =
     (case exec (errpt_command time_range) of
        (success, stdout, stderr) \<Rightarrow> if \<not> success then [] else parse_errpt stdout)"

text \<open>
  \<open>s.find(sub)\<close>: the index of the first occurrence, or \<open>-1\<close>; and the slice \<open>s[i:j]\<close>,
  where a negative index counts from the end and both are clamped to the text.
\<close>

fun find_from :: "string \<Rightarrow> string \<Rightarrow> nat \<Rightarrow> int" where
  "find_from sub [] n = (if sub = [] then int n else - 1)"
| "find_from sub (c # cs) n = (if prefix sub (c # cs) then int n else find_from sub cs (Suc n))"

definition str_find :: "string \<Rightarrow> string \<Rightarrow> int" where
  "str_find s sub = find_from sub s 0"

definition slice_index :: "string \<Rightarrow> int \<Rightarrow> nat" where
  "slice_index s i =
     nat (max 0 (min (int (length s)) (if i < 0 then i + int (length s) else i)))"

definition py_slice :: "string \<Rightarrow> int \<Rightarrow> int \<Rightarrow> string" where
  "py_slice s i j = take (slice_index s j - slice_index s i) (drop (slice_index s i) s)"

text \<open>
  A raw system-log entry is the dictionary literal of \<open>collect_syslog_data\<close>, with its
  seven fixed keys: the field \<open>entry_K\<close> is the key \<open>K\<close>.
\<close>

record syslog_entry =
  entry_source :: string
  entry_message :: string
  entry_timestamp :: string
  entry_facility :: string
  entry_priority :: string
  entry_process_id :: string
  entry_hostname :: string

text \<open>
  The entry of one non-blank (stripped) line; \<open>now\<close> is \<open>datetime.now().isoformat()\<close> as
  read for this entry.
\<close>

definition line_entry :: "string \<Rightarrow> string \<Rightarrow> string \<Rightarrow> string \<Rightarrow> syslog_entry" where
  "line_entry log_file host now line =
     (let entry = \<lparr>entry_source = log_file, entry_message = line, entry_timestamp = now,
                    entry_facility = ''UNKNOWN'', entry_priority = ''UNKNOWN'',
                    entry_process_id = [],
                    entry_hostname = host\<rparr>
      in if prefix ''['' line \<and> contains '']'' line
         then entry\<lparr>entry_timestamp := py_slice line 1 (str_find line '']'')\<rparr>
         else entry)"

text \<open>
  The loop over the lines of one log file. The clock is read once for each entry:
  \<open>clock n\<close> is the reading for the entry that becomes number \<open>n\<close> of the result.
\<close>

fun syslog_lines ::
  "string \<Rightarrow> string \<Rightarrow> (nat \<Rightarrow> string) \<Rightarrow> string list \<Rightarrow> syslog_entry list \<Rightarrow> syslog_entry list"
where
  "syslog_lines log_file host clock [] syslog_data = syslog_data"
| "syslog_lines log_file host clock (l # ls) syslog_data =
     (let line = strip l
      in if line = [] then syslog_lines log_file host clock ls syslog_data
         else syslog_lines log_file host clock ls
                (syslog_data @ [line_entry log_file host (clock (length syslog_data)) line]))"

definition test_command :: "string \<Rightarrow> string" where
  "test_command log_file =
     ''test -r '' @ log_file @ '' && echo 'exists' || echo 'not_exists'' @ [CHR 0x27]"

definition tail_command :: "string \<Rightarrow> string" where
  "tail_command log_file = ''tail -100 '' @ log_file"

fun syslog_files ::
  "exec \<Rightarrow> string \<Rightarrow> (nat \<Rightarrow> string) \<Rightarrow> string list \<Rightarrow> syslog_entry list \<Rightarrow> syslog_entry list"
where
  "syslog_files exec host clock [] syslog_data = syslog_data"
| "syslog_files exec host clock (log_file # fs) syslog_data =
     (case exec (test_command log_file) of
        (success, stdout, stderr) \<Rightarrow>
          if \<not> success \<or> contains ''not_exists'' stdout
          then syslog_files exec host clock fs syslog_data
          else
            (case exec (tail_command log_file) of
               (success, stdout, stderr) \<Rightarrow>
                 if \<not> success then syslog_files exec host clock fs syslog_data
                 else syslog_files exec host clock fs
                        (syslog_lines log_file host clock (str_split stdout [newline])
                           syslog_data)))"

definition default_log_files :: "string list" where
  "default_log_files = [''/var/adm/ras/errlog'', ''/var/adm/ras/conslog'', ''/var/adm/messages'']"

text \<open>\<open>log_files\<close> is \<open>None\<close> when the caller gives none.\<close>

definition collect_syslog_data ::
  "exec \<Rightarrow> (nat \<Rightarrow> string) \<Rightarrow> server_config \<Rightarrow> string list option \<Rightarrow> syslog_entry list"
where
  "collect_syslog_data exec clock cfg log_files =
     (let files = (case log_files of None \<Rightarrow> default_log_files
                   | Some fs \<Rightarrow> if fs = [] then default_log_files else fs)
      in syslog_files exec (hostname cfg) clock files [])"

section \<open>The system-log collector (\<open>SyslogCollector\<close>)\<close>

subsection \<open>The two regular expressions\<close>

text \<open>
  \<open>aix_timestamp\<close> is \<open>\[(\d{2}/\d{2}/\d{4}-\d{2}:\d{2}:\d{2}:\d{3})\]\<close>: a sequence of
  single characters and digits, of fixed length. \<open>re.search\<close> returns the leftmost match;
  group 1 is the text between the brackets.
\<close>

datatype pat = Digit | Lit char

definition aix_timestamp :: "pat list" where
  "aix_timestamp =
     [Lit (CHR ''[''),
      Digit, Digit, Lit (CHR ''/''), Digit, Digit, Lit (CHR ''/''), Digit, Digit, Digit, Digit,
      Lit (CHR ''-''),
      Digit, Digit, Lit (CHR '':''), Digit, Digit, Lit (CHR '':''), Digit, Digit, Lit (CHR '':''),
      Digit, Digit, Digit,
      Lit (CHR '']'')]"

fun match_pat :: "pat list \<Rightarrow> string \<Rightarrow> bool" where
  "match_pat [] s = True"
| "match_pat (p # ps) [] = False"
| "match_pat (Digit # ps) (c # cs) = (isdigit c \<and> match_pat ps cs)"
| "match_pat (Lit a # ps) (c # cs) = (a = c \<and> match_pat ps cs)"

fun search_timestamp :: "string \<Rightarrow> string option" where
  "search_timestamp [] = None"
| "search_timestamp (c # cs) =
     (if match_pat aix_timestamp (c # cs) then Some (take (length aix_timestamp - 2) cs)
      else search_timestamp cs)"

text \<open>
  \<open>aix_process\<close> is \<open>(\w+)\[(\d+)\]\<close>. At a start position the greedy \<open>\w+\<close> takes the
  whole run of word characters, and no shorter run can be followed by \<open>[\<close>, which is not a
  word character; likewise for \<open>\d+\<close> and \<open>]\<close>. So a match at a position is the run of word
  characters, \<open>[\<close>, the run of digits, \<open>]\<close>, both runs non-empty, and the search takes the
  leftmost position that matches. The result is (group 1, group 2).
\<close>

definition match_process :: "string \<Rightarrow> (string \<times> string) option" where
  "match_process s =
     (let w = takeWhile isword s; r = dropWhile isword s
      in if w = [] then None
         else (case r of
                 [] \<Rightarrow> None
               | c # r' \<Rightarrow>
                   if c \<noteq> CHR ''['' then None
                   else (let d = takeWhile isdigit r'; r'' = dropWhile isdigit r'
                         in if d = [] then None
                            else (case r'' of
                                    [] \<Rightarrow> None
                                  | c' # _ \<Rightarrow> if c' = CHR '']'' then Some (w, d) else None))))"

fun search_process :: "string \<Rightarrow> (string \<times> string) option" where
  "search_process [] = None"
| "search_process (c # cs) =
     (case match_process (c # cs) of
        Some g \<Rightarrow> Some g
      | None \<Rightarrow> search_process cs)"

subsection \<open>The classifiers\<close>

definition determine_facility :: "string \<Rightarrow> string \<Rightarrow> string" where
  "determine_facility source message =
     (let source_lower = lower source; message_lower = lower message
      in if contains ''errlog'' source_lower then ''SYSTEM''
         else if contains ''conslog'' source_lower then ''CONSOLE''
         else if contains ''messages'' source_lower then ''SYSLOG''
         else if contains ''authlog'' source_lower then ''AUTH''
         else if contains ''mail'' source_lower then ''MAIL''
         else if contains ''cron'' source_lower then ''CRON''
         else if contains ''daemon'' source_lower then ''DAEMON''
         else if contains ''kern'' source_lower then ''KERNEL''
         else if contains ''user'' source_lower then ''USER''
         else if contains ''local'' source_lower then ''LOCAL''
         else if any_in [''kernel'', ''driver'', ''module''] message_lower then ''KERNEL''
         else if any_in [''auth'', ''login'', ''password'', ''su''] message_lower then ''AUTH''
         else if any_in [''mail'', ''smtp'', ''pop'', ''imap''] message_lower then ''MAIL''
         else if any_in [''cron'', ''at'', ''batch''] message_lower then ''CRON''
         else if any_in [''daemon'', ''service'', ''inetd''] message_lower then ''DAEMON''
         else ''UNKNOWN'')"

definition determine_priority :: "string \<Rightarrow> string" where
  "determine_priority message =
     (let message_lower = lower message
      in if any_in [''panic'', ''fatal'', ''emerg'', ''emergency''] message_lower then ''EMERG''
         else if any_in [''alert'', ''critical'', ''crit''] message_lower then ''ALERT''
         else if any_in [''error'', ''err'', ''fail'', ''failure''] message_lower then ''ERR''
         else if any_in [''warn'', ''warning''] message_lower then ''WARNING''
         else if any_in [''notice'', ''note''] message_lower then ''NOTICE''
         else if any_in [''info'', ''information''] message_lower then ''INFO''
         else if any_in [''debug'', ''trace''] message_lower then ''DEBUG''
         else ''UNKNOWN'')"

definition priority_to_level :: "(string \<times> string) list" where
  "priority_to_level =
     [(''EMERG'', ''CRITICAL''),
      (''ALERT'', ''CRITICAL''),
      (''ERR'', ''ERROR''),
      (''WARNING'', ''WARNING''),
      (''NOTICE'', ''INFO''),
      (''INFO'', ''INFO''),
      (''DEBUG'', ''DEBUG'')]"

definition determine_log_level :: "string \<Rightarrow> string" where
  "determine_log_level message =
     (let priority = determine_priority message
      in dict_get priority_to_level priority ''INFO'')"

definition aix_components :: "string list" where
  "aix_components =
     [''hacmp'', ''vios'', ''lpar'', ''aix'', ''power'', ''ibm'',
      ''network'', ''disk'', ''memory'', ''cpu'', ''filesystem'',
      ''security'', ''user'', ''group'', ''process'', ''service'']"

definition extract_component :: "string \<Rightarrow> string \<Rightarrow> string" where
  "extract_component message source =
     (let message_lower = lower message
      in case find (\<lambda>component. contains component message_lower) aix_components of
           Some component \<Rightarrow> upper component
         | None \<Rightarrow>
             (case search_process message of
                None \<Rightarrow> ''SYSTEM''
              | Some (g1, g2) \<Rightarrow>
                  (let process_name = lower g1
                   in case find (\<lambda>component. contains component process_name) aix_components of
                        Some component \<Rightarrow> upper component
                      | None \<Rightarrow> ''SYSTEM'')))"

definition determine_error_type :: "string \<Rightarrow> string" where
  "determine_error_type message =
     (let message_lower = lower message
      in if any_in [''timeout'', ''timed out''] message_lower then ''TIMEOUT''
         else if any_in [''connection refused'', ''connection failed''] message_lower
           then ''CONNECTION_ERROR''
         else if any_in [''permission denied'', ''access denied''] message_lower
           then ''PERMISSION_ERROR''
         else if any_in [''file not found'', ''no such file''] message_lower then ''FILE_ERROR''
         else if any_in [''out of memory'', ''memory full''] message_lower then ''MEMORY_ERROR''
         else if any_in [''disk full'', ''no space''] message_lower then ''DISK_ERROR''
         else if any_in [''network unreachable'', ''host unreachable''] message_lower
           then ''NETWORK_ERROR''
         else if any_in [''service not available'', ''service down''] message_lower
           then ''SERVICE_ERROR''
         else ''GENERAL'')"

subsection \<open>Parsing and processing\<close>

text \<open>
  \<open>_parse_log_message\<close> fills the dictionary \<open>parsed\<close> key by key. Its \<open>try\<close> block guards
  operations on text that do not raise.
\<close>

definition parse_log_message :: "string \<Rightarrow> string \<Rightarrow> rawdict" where
  "parse_log_message message source =
     (let parsed = [];
          parsed = (case search_timestamp message of
                      None \<Rightarrow> parsed
                    | Some g1 \<Rightarrow> AList.update ''timestamp'' g1 parsed);
          parsed = (case search_process message of
                      None \<Rightarrow> parsed
                    | Some (g1, g2) \<Rightarrow>
                        AList.update ''process_id'' g2 (AList.update ''process_name'' g1 parsed));
          parsed = AList.update ''facility'' (determine_facility source message) parsed;
          parsed = AList.update ''priority'' (determine_priority message) parsed;
          parsed = AList.update ''log_level'' (determine_log_level message) parsed;
          parsed = AList.update ''component'' (extract_component message source) parsed;
          parsed = AList.update ''error_type'' (determine_error_type message) parsed
      in parsed)"

text \<open>
  The dictionary literal \<open>processed_entry\<close> of \<open>_process_syslog_data\<close>, before the empty
  values are removed.
\<close>

definition syslog_processed_entry :: "server_config \<Rightarrow> syslog_entry \<Rightarrow> pydict" where
  "syslog_processed_entry cfg entry =
     (let parsed_entry = parse_log_message (entry_message entry) (entry_source entry)
      in
        [(''source'', PyStr (entry_source entry)),
         (''message'', PyStr (entry_message entry)),
         (''timestamp'', PyStr (entry_timestamp entry)),
         (''facility'', PyStr (dict_get parsed_entry ''facility'' ''UNKNOWN'')),
         (''priority'', PyStr (dict_get parsed_entry ''priority'' ''UNKNOWN'')),
         (''process_id'', PyStr (dict_get parsed_entry ''process_id'' [])),
         (''hostname'', PyStr (hostname cfg)),
         (''server_name'', PyStr (name cfg)),
         (''log_level'', PyStr (dict_get parsed_entry ''log_level'' ''INFO'')),
         (''component'', PyStr (dict_get parsed_entry ''component'' [])),
         (''error_type'', PyStr (dict_get parsed_entry ''error_type'' [])),
         (''raw_message'', PyStr (entry_message entry))])"

definition process_syslog_entry :: "server_config \<Rightarrow> syslog_entry \<Rightarrow> pydict" where
  "process_syslog_entry cfg entry = clean_empty (syslog_processed_entry cfg entry)"

definition process_syslog_data :: "syslog_entry list \<Rightarrow> server_config \<Rightarrow> pydict list" where
  "process_syslog_data syslog_data cfg = map (process_syslog_entry cfg) syslog_data"

text \<open>
  \<open>collect_from_specific_file\<close> builds the entry of a non-blank (stripped) line with the
  same dictionary literal as \<open>collect_syslog_data\<close>, without the test of a leading
  bracket, and hands its entries to \<open>_process_syslog_data\<close> as well.
\<close>

definition specific_file_entry :: "string \<Rightarrow> string \<Rightarrow> string \<Rightarrow> string \<Rightarrow> syslog_entry" where
  "specific_file_entry log_file host now line =
     \<lparr>entry_source = log_file, entry_message = line, entry_timestamp = now,
      entry_facility = ''UNKNOWN'', entry_priority = ''UNKNOWN'', entry_process_id = [],
      entry_hostname = host\<rparr>"

section \<open>The two \<open>collect\<close> operations\<close>

text \<open>
  The storage collaborator's write (\<open>write_errpt_data\<close>, \<open>write_syslog_data\<close>) catches its
  own exceptions and returns a boolean; the model takes it as a function of the server
  name and the records. Nothing inside the \<open>try\<close> block of \<open>collect\<close> raises in the model,
  so its \<open>except\<close> branch has no counterpart.
\<close>

record collect_result =
  success :: bool
  records_collected :: nat
  error_message :: "string option"

type_synonym db_write = "string \<Rightarrow> pydict list \<Rightarrow> bool"

definition errpt_collect :: "exec \<Rightarrow> db_write \<Rightarrow> server_config \<Rightarrow> collect_result" where
  "errpt_collect exec write_errpt_data cfg =
     (let server_name = name cfg;
          errpt_data = collect_errpt_data exec ''1h''
      in if errpt_data = []
         then \<lparr>success = True, records_collected = 0, error_message = None\<rparr>
         else
           (let processed_data = process_errpt_data errpt_data cfg
            in if write_errpt_data server_name processed_data
               then \<lparr>success = True, records_collected = length processed_data,
                      error_message = None\<rparr>
               else \<lparr>success = False, records_collected = 0,
                      error_message =
                        Some (''Failed to write error report data to database for ''
                                @ server_name)\<rparr>))"

definition syslog_collect ::
  "exec \<Rightarrow> (nat \<Rightarrow> string) \<Rightarrow> db_write \<Rightarrow> server_config \<Rightarrow> collect_result"
where
  "syslog_collect exec clock write_syslog_data cfg =
     (let server_name = name cfg;
          syslog_data = collect_syslog_data exec clock cfg None
      in if syslog_data = []
         then \<lparr>success = True, records_collected = 0, error_message = None\<rparr>
         else
           (let processed_data = process_syslog_data syslog_data cfg
            in if write_syslog_data server_name processed_data
               then \<lparr>success = True, records_collected = length processed_data,
                      error_message = None\<rparr>
               else \<lparr>success = False, records_collected = 0,
                      error_message =
                        Some (''Failed to write system log data to database for ''
                                @ server_name)\<rparr>))"


section \<open>Notions of the specification\<close>

text \<open>
  The definitions of this section follow the words of the specification, or name a part
  of the code above, so that the theorems can compare the two.
\<close>

subsection \<open>Blocks of an error report\<close>

text \<open>
  Following the specification's words: the blocks of a text are its maximal runs of
  consecutive non-blank lines, a line being blank when stripping leaves nothing of it.
  \<open>blocks_from b ls\<close> splits \<open>ls\<close> with \<open>b\<close> the run that is open.
\<close>

fun blocks_from :: "string list \<Rightarrow> string list \<Rightarrow> string list list" where
  "blocks_from b [] = (if b = [] then [] else [b])"
| "blocks_from b (l # ls) =
     (if strip l = [] then (if b = [] then blocks_from [] ls else b # blocks_from [] ls)
      else blocks_from (b @ [l]) ls)"

definition errpt_blocks :: "string \<Rightarrow> string list list" where
  "errpt_blocks stdout = blocks_from [] (str_split stdout [newline])"

text \<open>Following the specification's words: a line containing a known field-prefix marker.\<close>

definition has_marker :: "string \<Rightarrow> bool" where
  "has_marker l = list_ex (\<lambda>(m, k). contains m (strip l)) field_markers"

text \<open>The keys of the markers that appear in the lines of a block.\<close>

definition marker_keys :: "string list \<Rightarrow> string list" where
  "marker_keys b =
     map snd (filter (\<lambda>(m, k). list_ex (\<lambda>l. contains m (strip l)) b) field_markers)"

text \<open>
  From the code: a line stores a field when the branch it takes splits it into exactly two
  parts, that is, when the first marker of the chain that the line contains occurs in it
  exactly once.
\<close>

definition stores_field :: "string \<Rightarrow> bool" where
  "stores_field l =
     (case line_branch (strip l) of
        None \<Rightarrow> False
      | Some (m, k) \<Rightarrow> length (str_split (strip l) m) = 2)"

text \<open>From the code: the record that the loop body builds from the lines of one block.\<close>

definition block_record :: "string list \<Rightarrow> rawdict" where
  "block_record b = foldl (\<lambda>current_entry l. store_line (strip l) current_entry) [] b"

subsection \<open>The sequence number\<close>

text \<open>
  Following the specification's words: the sequence number is an integer parsed from the
  text (an optional sign and decimal digits), and 0 when the text does not parse.
\<close>

definition digit_value :: "char \<Rightarrow> int" where
  "digit_value c = (case map_of (zip ''0123456789'' [0, 1, 2, 3, 4, 5, 6, 7, 8, 9]) c of
                      None \<Rightarrow> 0 | Some d \<Rightarrow> d)"

definition digits_value :: "string \<Rightarrow> int option" where
  "digits_value s =
     (if s \<noteq> [] \<and> list_all isdigit s
      then Some (foldl (\<lambda>n c. 10 * n + digit_value c) 0 s) else None)"

fun int_of_text :: "string \<Rightarrow> int option" where
  "int_of_text [] = None"
| "int_of_text (c # cs) =
     (if c = CHR ''-'' then map_option uminus (digits_value cs)
      else if c = CHR ''+'' then digits_value cs
      else digits_value (c # cs))"

definition spec_sequence_number :: "string \<Rightarrow> pyval" where
  "spec_sequence_number txt = PyInt (case int_of_text txt of None \<Rightarrow> 0 | Some n \<Rightarrow> n)"

text \<open>
  From the code: the lines of a block that store the sequence number, and the text that
  the block's record then holds, which is the stripped remainder of the last of them.
\<close>

definition stores_sequence_number :: "string \<Rightarrow> bool" where
  "stores_sequence_number l =
     (line_branch (strip l) = Some (''Sequence Number:'', ''sequence_number'')
      \<and> length (str_split (strip l) ''Sequence Number:'') = 2)"

definition sequence_text :: "string list \<Rightarrow> string option" where
  "sequence_text b =
     (case filter stores_sequence_number b of
        [] \<Rightarrow> None
      | l # ls \<Rightarrow> Some (strip (str_split (strip (last (l # ls))) ''Sequence Number:'' ! 1)))"

subsection \<open>The timestamp and the log level of a system-log record\<close>

text \<open>
  Following the specification's words: the timestamp is the value of the bracketed
  AIX-style timestamp that a pattern search finds anywhere in the message, and the
  collection time when there is none.
\<close>

definition spec_timestamp :: "string \<Rightarrow> string \<Rightarrow> string" where
  "spec_timestamp msg now = (case search_timestamp msg of None \<Rightarrow> now | Some g1 \<Rightarrow> g1)"

text \<open>
  From the code: the timestamp that \<open>collect_syslog_data\<close> gives the entry of a line, the
  text between a leading \<open>[\<close> and the first \<open>]\<close>, and the collection time otherwise.
\<close>

definition leading_bracket_text :: "string \<Rightarrow> string \<Rightarrow> string" where
  "leading_bracket_text line now =
     (if prefix ''['' line \<and> contains '']'' line
      then takeWhile (\<lambda>c. c \<noteq> CHR '']'') (tl line) else now)"

text \<open>Following the specification's words: the fixed lookup from priority to log level.\<close>

definition spec_log_level :: "string \<Rightarrow> string" where
  "spec_log_level p =
     (if p = ''EMERG'' \<or> p = ''ALERT'' then ''CRITICAL''
      else if p = ''ERR'' then ''ERROR''
      else if p = ''WARNING'' then ''WARNING''
      else if p = ''NOTICE'' \<or> p = ''INFO'' then ''INFO''
      else if p = ''DEBUG'' then ''DEBUG''
      else ''INFO'')"

subsection \<open>The examples of the specification\<close>

definition abc123_text :: string where
  "abc123_text = ''IDENTIFIER: ABC123'' @ [newline] @ ''Description: disk fault'' @ [newline]"

definition abc123_text_unterminated :: string where
  "abc123_text_unterminated = ''IDENTIFIER: ABC123'' @ [newline] @ ''Description: disk fault''"

definition sshd_message :: string where
  "sshd_message = ''Jan sshd[4521]: authentication failure for user root''"

text \<open>
  Two blocks separated by a run of blank lines, a text of blank lines only, and a block
  whose only line holds its marker twice.
\<close>

definition two_block_text :: string where
  "two_block_text = ''IDENTIFIER: A1'' @ [newline, newline, newline] @ ''Description: d''
                      @ [newline] @ ''Type: t''"

definition blank_text :: string where
  "blank_text = '' '' @ [newline, newline] @ ''  ''"

definition doubled_marker_text :: string where
  "doubled_marker_text = ''IDENTIFIER: a IDENTIFIER: b''"

text \<open>A block with a sequence number that is not a number, and one with a number.\<close>

definition sequence_abc_text :: string where
  "sequence_abc_text = ''IDENTIFIER: A1'' @ [newline] @ ''Sequence Number: abc''"

definition sequence_42_text :: string where
  "sequence_42_text = ''IDENTIFIER: A1'' @ [newline] @ ''Sequence Number: 42''"

text \<open>
  A message with a bracketed AIX-style timestamp that is not at its start, and the
  collection time of the examples.
\<close>

definition embedded_timestamp_message :: string where
  "embedded_timestamp_message = ''boot [01/02/2024-10:11:12:123] done''"

definition collection_time :: string where
  "collection_time = ''2026-01-01T00:00:00''"

section \<open>Dictionaries\<close>

lemma map_of_filter_absent: "k \<notin> fst ` set d \<Longrightarrow> map_of (filter P d) k = None"
  by (induction d) auto

lemma map_of_clean_empty:
  "distinct (map fst d) \<Longrightarrow>
   map_of (clean_empty d) k
   = (case map_of d k of None \<Rightarrow> None | Some v \<Rightarrow> if truthy v then Some v else None)"
proof (induction d)
  case Nil
  then show ?case by (simp add: clean_empty_def)
next
  case (Cons a d)
  obtain k' v' where a: "a = (k', v')" by (cases a)
  from Cons.prems a have absent: "k' \<notin> fst ` set d" and dist: "distinct (map fst d)"
    by auto
  from Cons.IH [OF dist] have IH: "map_of (filter (\<lambda>(k, v). truthy v) d) k
      = (case map_of d k of None \<Rightarrow> None | Some v \<Rightarrow> if truthy v then Some v else None)"
    by (simp add: clean_empty_def)
  show ?case
  proof (cases "k = k'")
    case True
    with absent have "map_of (filter (\<lambda>(k, v). truthy v) d) k = None"
      by (simp add: map_of_filter_absent)
    with True a show ?thesis by (simp add: clean_empty_def)
  next
    case False
    with a IH show ?thesis by (simp add: clean_empty_def)
  qed
qed

lemma clean_empty_truthy: "(k, v) \<in> set (clean_empty d) \<Longrightarrow> truthy v"
  by (auto simp: clean_empty_def)

lemma truthy_cases: "truthy v \<Longrightarrow> v \<noteq> PyStr [] \<and> v \<noteq> PyInt 0 \<and> v \<noteq> PyNone"
  by (cases v) auto

lemma errpt_processed_keys:
  "map fst (errpt_processed_entry cfg entry) =
     [''severity'', ''error_id'', ''resource_name'', ''description'', ''resource_type'',
      ''resource_class'', ''sequence_number'', ''machine_id'', ''node_id'', ''class'', ''type'',
      ''resource_id'', ''logical_resource_id'', ''location_code'', ''vpd'', ''timestamp'',
      ''probable_causes'', ''user_causes'', ''install_causes'', ''failure_causes'',
      ''recommended_actions'', ''detail_data'', ''server_name'', ''hostname'']"
  by (simp add: errpt_processed_entry_def Let_def)

lemma errpt_processed_distinct: "distinct (map fst (errpt_processed_entry cfg entry))"
  unfolding errpt_processed_keys by simp

lemma syslog_processed_keys:
  "map fst (syslog_processed_entry cfg entry) =
     [''source'', ''message'', ''timestamp'', ''facility'', ''priority'', ''process_id'',
      ''hostname'', ''server_name'', ''log_level'', ''component'', ''error_type'',
      ''raw_message'']"
  by (simp add: syslog_processed_entry_def Let_def)

lemma syslog_processed_distinct: "distinct (map fst (syslog_processed_entry cfg entry))"
  unfolding syslog_processed_keys by simp

lemma process_errpt_entry_lookup:
  "map_of (process_errpt_entry cfg entry) k
   = (case map_of (errpt_processed_entry cfg entry) k of
        None \<Rightarrow> None | Some v \<Rightarrow> if truthy v then Some v else None)"
  by (simp add: process_errpt_entry_def map_of_clean_empty errpt_processed_distinct)

lemma process_syslog_entry_lookup:
  "map_of (process_syslog_entry cfg entry) k
   = (case map_of (syslog_processed_entry cfg entry) k of
        None \<Rightarrow> None | Some v \<Rightarrow> if truthy v then Some v else None)"
  by (simp add: process_syslog_entry_def map_of_clean_empty syslog_processed_distinct)

section \<open>The severity classifier on the examples of the specification\<close>

lemma upper_HARDWARE_FAULT: "upper ''HARDWARE_FAULT'' = ''HARDWARE_FAULT''"
  by (simp add: upper_def upper_char_def)

lemma upper_timeout_fail: "upper ''timeout_fail'' = ''TIMEOUT_FAIL''"
  by (simp add: upper_def upper_char_def)

lemma upper_ABC123: "upper ''ABC123'' = ''ABC123''"
  by (simp add: upper_def upper_char_def)

text \<open>
  Claim C2, as stated, fails on its second example: the upper-cased \<open>timeout_fail\<close> does
  contain one of the letters H, S, M, L, and the classifier does not answer \<open>S\<close> for it.
\<close>

theorem severity_timeout_fail_not_S:
  "any_in [''H'', ''S'', ''M'', ''L''] (upper ''timeout_fail'')
   \<and> extract_severity ''timeout_fail'' \<noteq> ''S''"
  by (simp add: extract_severity_def upper_timeout_fail any_in_def)

text \<open>
  Claim C2, amended: the classifier answers \<open>H\<close> for \<open>HARDWARE_FAULT\<close>, whose upper-cased
  text contains the letter H, and \<open>M\<close> for \<open>timeout_fail\<close>, whose upper-cased text
  \<open>TIMEOUT_FAIL\<close> contains neither H nor S but contains M: the test of the letters comes
  before the keywords, so the keyword \<open>FAIL\<close> is never consulted.
\<close>

theorem severity_of_examples:
  "extract_severity ''HARDWARE_FAULT'' = ''H''
   \<and> contains ''H'' (upper ''HARDWARE_FAULT'')
   \<and> extract_severity ''timeout_fail'' = ''M''
   \<and> upper ''timeout_fail'' = ''TIMEOUT_FAIL''
   \<and> \<not> contains ''H'' ''TIMEOUT_FAIL'' \<and> \<not> contains ''S'' ''TIMEOUT_FAIL''
   \<and> contains ''M'' ''TIMEOUT_FAIL''"
  by (simp add: extract_severity_def upper_timeout_fail upper_HARDWARE_FAULT any_in_def)

section \<open>The error-report parser on the example of the specification\<close>

lemma parse_abc123_text:
  "parse_errpt abc123_text = [[(''error_id'', ''ABC123''), (''description'', ''disk fault'')]]"
  by (simp add: abc123_text_def parse_errpt_def str_split_def newline_def strip_def isspace_def
      store_line_def line_branch_def field_markers_def)

lemma parse_abc123_text_unterminated:
  "parse_errpt abc123_text_unterminated
   = [[(''error_id'', ''ABC123''), (''description'', ''disk fault'')]]"
  by (simp add: abc123_text_unterminated_def parse_errpt_def str_split_def newline_def strip_def
      isspace_def store_line_def line_branch_def field_markers_def)

lemma severity_ABC123: "extract_severity ''ABC123'' = ''L''"
  by (simp add: extract_severity_def upper_ABC123 any_in_def)

lemma processed_ABC123:
  "map_of (errpt_processed_entry cfg
             [(''error_id'', ''ABC123''), (''description'', ''disk fault'')]) ''error_id''
     = Some (PyStr ''ABC123'')
   \<and> map_of (errpt_processed_entry cfg
               [(''error_id'', ''ABC123''), (''description'', ''disk fault'')]) ''description''
     = Some (PyStr ''disk fault'')
   \<and> map_of (errpt_processed_entry cfg
               [(''error_id'', ''ABC123''), (''description'', ''disk fault'')]) ''severity''
     = Some (PyStr ''L'')"
  by (simp add: errpt_processed_entry_def severity_ABC123 dict_get_def)

text \<open>
  Claim C9: the text \<open>IDENTIFIER: ABC123\<close>, newline, \<open>Description: disk fault\<close>, newline
  (\<^const>\<open>abc123_text\<close>) gives exactly one record, whose \<open>error_id\<close> is \<open>ABC123\<close> and whose
  \<open>description\<close> is \<open>disk fault\<close>; the upper-cased id contains none of H, S, M, L and no
  keyword, so the severity of the processed record is \<open>L\<close>. The same records come out
  without the last newline, where the record is emitted at the end of the input.
\<close>

theorem abc123_one_record:
  "parse_errpt abc123_text = [[(''error_id'', ''ABC123''), (''description'', ''disk fault'')]]
   \<and> parse_errpt abc123_text_unterminated = parse_errpt abc123_text
   \<and> \<not> any_in [''H'', ''S'', ''M'', ''L''] (upper ''ABC123'')
   \<and> (\<exists>r. process_errpt_data (parse_errpt abc123_text) cfg = [r]
          \<and> map_of r ''error_id'' = Some (PyStr ''ABC123'')
          \<and> map_of r ''description'' = Some (PyStr ''disk fault'')
          \<and> map_of r ''severity'' = Some (PyStr ''L''))"
  by (simp add: parse_abc123_text parse_abc123_text_unterminated process_errpt_data_def
      process_errpt_entry_lookup processed_ABC123 upper_ABC123 any_in_def)

section \<open>The system-log parser on the example of the specification\<close>

lemma lower_authlog: "lower ''/var/log/authlog'' = ''/var/log/authlog''"
  by (simp add: lower_def lower_char_def)

lemma lower_sshd_message:
  "lower sshd_message = ''jan sshd[4521]: authentication failure for user root''"
  by (simp add: sshd_message_def lower_def lower_char_def)

lemma facility_authlog: "determine_facility ''/var/log/authlog'' msg = ''AUTH''"
  by (simp add: determine_facility_def lower_authlog)

lemma priority_sshd_message: "determine_priority sshd_message = ''ERR''"
  by (simp add: determine_priority_def lower_sshd_message any_in_def)

lemma process_sshd_message: "search_process sshd_message = Some (''sshd'', ''4521'')"
  by (simp add: sshd_message_def match_process_def isword_def isdigit_def)

lemma log_level_sshd_message: "determine_log_level sshd_message = ''ERROR''"
  by (simp add: determine_log_level_def priority_sshd_message dict_get_def priority_to_level_def)

lemma parsed_sshd_message:
  "map_of (parse_log_message sshd_message ''/var/log/authlog'') ''facility'' = Some ''AUTH''
   \<and> map_of (parse_log_message sshd_message ''/var/log/authlog'') ''process_id'' = Some ''4521''
   \<and> map_of (parse_log_message sshd_message ''/var/log/authlog'') ''priority'' = Some ''ERR''
   \<and> map_of (parse_log_message sshd_message ''/var/log/authlog'') ''log_level'' = Some ''ERROR''"
  by (simp add: parse_log_message_def Let_def update_conv' process_sshd_message
      facility_authlog priority_sshd_message log_level_sshd_message split: option.splits)

lemma entry_sshd_message:
  "entry_message (line_entry src host now sshd_message) = sshd_message
   \<and> entry_source (line_entry src host now sshd_message) = src"
  by (simp add: line_entry_def sshd_message_def)

lemma processed_sshd_message:
  "map_of (syslog_processed_entry cfg (line_entry ''/var/log/authlog'' host now sshd_message))
     ''facility'' = Some (PyStr ''AUTH'')
   \<and> map_of (syslog_processed_entry cfg (line_entry ''/var/log/authlog'' host now sshd_message))
       ''process_id'' = Some (PyStr ''4521'')
   \<and> map_of (syslog_processed_entry cfg (line_entry ''/var/log/authlog'' host now sshd_message))
       ''priority'' = Some (PyStr ''ERR'')
   \<and> map_of (syslog_processed_entry cfg (line_entry ''/var/log/authlog'' host now sshd_message))
       ''log_level'' = Some (PyStr ''ERROR'')"
  by (simp add: syslog_processed_entry_def Let_def entry_sshd_message dict_get_def
      parsed_sshd_message)

text \<open>
  Claim C7: for the message \<open>Jan sshd[4521]: authentication failure for user root\<close>
  (\<^const>\<open>sshd_message\<close>) from the source \<open>/var/log/authlog\<close> the parser gives facility
  \<open>AUTH\<close>, process id \<open>4521\<close>, priority \<open>ERR\<close> (the lower-cased message contains \<open>fail\<close>)
  and log level \<open>ERROR\<close>, and the processed record carries the four values. The facility
  comes from the source path: it is \<open>AUTH\<close> for this source whatever the message is.
\<close>

theorem authlog_entry_classified:
  "map_of (parse_log_message sshd_message ''/var/log/authlog'') ''facility'' = Some ''AUTH''
   \<and> map_of (parse_log_message sshd_message ''/var/log/authlog'') ''process_id'' = Some ''4521''
   \<and> map_of (parse_log_message sshd_message ''/var/log/authlog'') ''priority'' = Some ''ERR''
   \<and> map_of (parse_log_message sshd_message ''/var/log/authlog'') ''log_level'' = Some ''ERROR''
   \<and> determine_facility ''/var/log/authlog'' msg = ''AUTH''
   \<and> contains ''fail'' (lower sshd_message)
   \<and> map_of (process_syslog_entry cfg (line_entry ''/var/log/authlog'' host now sshd_message))
       ''facility'' = Some (PyStr ''AUTH'')
   \<and> map_of (process_syslog_entry cfg (line_entry ''/var/log/authlog'' host now sshd_message))
       ''process_id'' = Some (PyStr ''4521'')
   \<and> map_of (process_syslog_entry cfg (line_entry ''/var/log/authlog'' host now sshd_message))
       ''priority'' = Some (PyStr ''ERR'')
   \<and> map_of (process_syslog_entry cfg (line_entry ''/var/log/authlog'' host now sshd_message))
       ''log_level'' = Some (PyStr ''ERROR'')"
  by (simp add: parsed_sshd_message facility_authlog lower_sshd_message
      process_syslog_entry_lookup processed_sshd_message)

section \<open>The log level\<close>

lemma priority_lookup: "dict_get priority_to_level p ''INFO'' = spec_log_level p"
  by (simp add: dict_get_def priority_to_level_def spec_log_level_def)

lemma log_level_of_priority: "determine_log_level msg = spec_log_level (determine_priority msg)"
  by (simp add: determine_log_level_def priority_lookup)

lemma spec_log_level_nonempty: "spec_log_level p \<noteq> []"
  by (simp add: spec_log_level_def)

lemma parsed_log_level:
  "map_of (parse_log_message msg src) ''log_level'' = Some (determine_log_level msg)"
  by (simp add: parse_log_message_def Let_def update_conv' split: option.splits prod.splits)

lemma processed_log_level:
  "map_of (syslog_processed_entry cfg entry) ''log_level''
   = Some (PyStr (determine_log_level (entry_message entry)))"
  by (simp add: syslog_processed_entry_def Let_def dict_get_def parsed_log_level)

lemma spec_log_level_UNKNOWN: "spec_log_level ''UNKNOWN'' = ''INFO''"
  by (simp add: spec_log_level_def)

text \<open>
  Claim C8: for every message the derived log level is the fixed lookup applied to the
  derived priority (\<open>EMERG\<close> and \<open>ALERT\<close> give \<open>CRITICAL\<close>, \<open>ERR\<close> gives \<open>ERROR\<close>,
  \<open>WARNING\<close> gives \<open>WARNING\<close>, \<open>NOTICE\<close> and \<open>INFO\<close> give \<open>INFO\<close>, \<open>DEBUG\<close> gives \<open>DEBUG\<close>,
  anything else, \<open>UNKNOWN\<close> included, gives \<open>INFO\<close>), and the processed record carries it.
\<close>

theorem log_level_is_lookup_of_priority:
  "determine_log_level msg = spec_log_level (determine_priority msg)
   \<and> map_of (parse_log_message msg src) ''log_level''
       = Some (spec_log_level (determine_priority msg))
   \<and> map_of (process_syslog_entry cfg entry) ''log_level''
       = Some (PyStr (spec_log_level (determine_priority (entry_message entry))))
   \<and> spec_log_level ''UNKNOWN'' = ''INFO''"
  by (simp add: process_syslog_entry_lookup processed_log_level parsed_log_level
      log_level_of_priority spec_log_level_nonempty spec_log_level_UNKNOWN)

section \<open>Substrings and the chain of markers\<close>

lemma prefix_append_contains: "prefix (a @ b) s \<Longrightarrow> contains b s"
proof (induction a arbitrary: s)
  case Nil
  then show ?case by (cases s) auto
next
  case (Cons x a)
  then obtain s' where s: "s = x # s'" and p: "prefix (a @ b) s'"
    by (cases s) auto
  from Cons.IH [OF p] show ?case by (simp add: s)
qed

lemma contains_append_right: "contains (a @ b) s \<Longrightarrow> contains b s"
proof (induction s)
  case Nil
  then show ?case by simp
next
  case (Cons c cs)
  from Cons.prems have "prefix (a @ b) (c # cs) \<or> contains (a @ b) cs" by simp
  then show ?case
  proof
    assume "prefix (a @ b) (c # cs)"
    then show ?thesis by (rule prefix_append_contains)
  next
    assume "contains (a @ b) cs"
    then have "contains b cs" by (rule Cons.IH)
    then show ?thesis by simp
  qed
qed

lemma contains_Resource_Class: "contains ''Resource Class:'' s \<Longrightarrow> contains ''Class:'' s"
  using contains_append_right [of "''Resource ''" "''Class:''" s] by simp

lemma contains_Resource_Type: "contains ''Resource Type:'' s \<Longrightarrow> contains ''Type:'' s"
  using contains_append_right [of "''Resource ''" "''Type:''" s] by simp

lemma line_branch_chain:
  "line_branch line =
     (if contains ''IDENTIFIER:'' line then Some (''IDENTIFIER:'', ''error_id'')
      else if contains ''Timestamp:'' line then Some (''Timestamp:'', ''timestamp'')
      else if contains ''Sequence Number:'' line
        then Some (''Sequence Number:'', ''sequence_number'')
      else if contains ''Machine Id:'' line then Some (''Machine Id:'', ''machine_id'')
      else if contains ''Node Id:'' line then Some (''Node Id:'', ''node_id'')
      else if contains ''Class:'' line then Some (''Class:'', ''class'')
      else if contains ''Type:'' line then Some (''Type:'', ''type'')
      else find (\<lambda>(m, k). contains m line) (drop 7 field_markers))"
  by (simp add: line_branch_def field_markers_def)

lemma find_in_set: "find P xs = Some x \<Longrightarrow> x \<in> set xs \<and> P x"
  by (induction xs) (auto split: if_splits)

lemma line_branch_in_markers:
  "line_branch line = Some (m, k) \<Longrightarrow> (m, k) \<in> set field_markers \<and> contains m line"
  using find_in_set [of "\<lambda>(m, k). contains m line" field_markers "(m, k)"]
  by (simp add: line_branch_def)

lemma line_branch_not_resource_class:
  "line_branch line \<noteq> Some (''Resource Class:'', ''resource_class'')"
proof
  assume b: "line_branch line = Some (''Resource Class:'', ''resource_class'')"
  then have "contains ''Resource Class:'' line"
    using line_branch_in_markers by blast
  then have "contains ''Class:'' line" by (rule contains_Resource_Class)
  then have "line_branch line \<in> Some ` set (take 6 field_markers)"
    by (simp add: line_branch_chain field_markers_def)
  with b show False by (simp add: field_markers_def)
qed

lemma line_branch_not_resource_type:
  "line_branch line \<noteq> Some (''Resource Type:'', ''resource_type'')"
proof
  assume b: "line_branch line = Some (''Resource Type:'', ''resource_type'')"
  then have "contains ''Resource Type:'' line"
    using line_branch_in_markers by blast
  then have "contains ''Type:'' line" by (rule contains_Resource_Type)
  then have "line_branch line \<in> Some ` set (take 7 field_markers)"
    by (simp add: line_branch_chain field_markers_def)
  with b show False by (simp add: field_markers_def)
qed

lemma line_branch_key:
  assumes "line_branch line = Some (m, k)"
  shows "k \<noteq> ''resource_class'' \<and> k \<noteq> ''resource_type''"
proof -
  from assms have mem: "(m, k) \<in> set field_markers" by (simp add: line_branch_in_markers)
  have "k = ''resource_class'' \<Longrightarrow> m = ''Resource Class:''"
    using mem by (auto simp: field_markers_def)
  moreover have "k = ''resource_type'' \<Longrightarrow> m = ''Resource Type:''"
    using mem by (auto simp: field_markers_def)
  ultimately show ?thesis
    using assms line_branch_not_resource_class line_branch_not_resource_type by blast
qed

lemma store_line_keys:
  "fst ` set (store_line line cur)
   \<subseteq> fst ` set cur \<union> {k. \<exists>m. line_branch line = Some (m, k)}"
  by (auto simp: store_line_def Let_def dom_update split: option.splits)

lemma store_line_keys_in:
  assumes "fst ` set cur \<subseteq> K" and "\<And>m k. line_branch line = Some (m, k) \<Longrightarrow> k \<in> K"
  shows "fst ` set (store_line line cur) \<subseteq> K"
  using store_line_keys [of line cur] assms by blast

lemma parse_errpt_lines_keys:
  assumes "\<And>line m k. line_branch line = Some (m, k) \<Longrightarrow> k \<in> K"
  shows "\<forall>r \<in> set acc. fst ` set r \<subseteq> K \<Longrightarrow> fst ` set cur \<subseteq> K
         \<Longrightarrow> \<forall>r \<in> set (parse_errpt_lines ls cur acc). fst ` set r \<subseteq> K"
proof (induction ls arbitrary: cur acc)
  case Nil
  then show ?case by auto
next
  case (Cons l ls)
  note acc = Cons.prems(1) and cur = Cons.prems(2)
  show ?case
  proof (cases "strip l = []")
    case blank: True
    show ?thesis
    proof (cases "cur = []")
      case True
      have "\<forall>r \<in> set (parse_errpt_lines ls cur acc). fst ` set r \<subseteq> K"
        using acc cur by (rule Cons.IH)
      then show ?thesis by (simp add: blank True)
    next
      case False
      have acc': "\<forall>r \<in> set (acc @ [cur]). fst ` set r \<subseteq> K"
        using acc cur by simp
      have nil: "fst ` set ([] :: rawdict) \<subseteq> K" by simp
      have "\<forall>r \<in> set (parse_errpt_lines ls [] (acc @ [cur])). fst ` set r \<subseteq> K"
        using acc' nil by (rule Cons.IH)
      then show ?thesis by (simp add: blank False)
    qed
  next
    case False
    have cur': "fst ` set (store_line (strip l) cur) \<subseteq> K"
      using cur assms by (rule store_line_keys_in)
    have "\<forall>r \<in> set (parse_errpt_lines ls (store_line (strip l) cur) acc). fst ` set r \<subseteq> K"
      using acc cur' by (rule Cons.IH)
    then show ?thesis by (simp add: False Let_def)
  qed
qed

lemma parse_errpt_no_resource_keys:
  assumes "r \<in> set (parse_errpt stdout)"
  shows "''resource_class'' \<notin> fst ` set r \<and> ''resource_type'' \<notin> fst ` set r"
proof -
  let ?K = "- {''resource_class'', ''resource_type''}"
  have "\<forall>r \<in> set (parse_errpt_lines (str_split stdout [newline]) [] []). fst ` set r \<subseteq> ?K"
    by (rule parse_errpt_lines_keys) (use line_branch_key in auto)
  with assms show ?thesis by (auto simp: parse_errpt_def)
qed

lemma processed_resource_class:
  "map_of (errpt_processed_entry cfg entry) ''resource_class''
   = Some (PyStr (dict_get entry ''resource_class'' []))"
  by (simp add: errpt_processed_entry_def Let_def)

lemma processed_resource_type:
  "map_of (errpt_processed_entry cfg entry) ''resource_type''
   = Some (PyStr (dict_get entry ''resource_type'' []))"
  by (simp add: errpt_processed_entry_def Let_def)

lemma dict_get_absent:
  assumes "k \<notin> fst ` set d"
  shows "dict_get d k dflt = dflt"
proof -
  from assms have "map_of d k = None" by (simp add: map_of_eq_None_iff)
  then show ?thesis by (simp add: dict_get_def)
qed

lemma processed_absent_key:
  assumes "''resource_class'' \<notin> fst ` set entry \<and> ''resource_type'' \<notin> fst ` set entry"
  shows "map_of (process_errpt_entry cfg entry) ''resource_class'' = None
         \<and> map_of (process_errpt_entry cfg entry) ''resource_type'' = None"
  using assms
  by (simp add: process_errpt_entry_lookup processed_resource_class processed_resource_type
      dict_get_absent)

lemma class_branch:
  assumes "contains ''Resource Class:'' line"
    and "\<not> list_ex (\<lambda>(m, k). contains m line) (take 5 field_markers)"
  shows "line_branch line = Some (''Class:'', ''class'')"
proof -
  from assms(1) have "contains ''Class:'' line" by (rule contains_Resource_Class)
  with assms(2) show ?thesis by (simp add: line_branch_chain field_markers_def)
qed

lemma type_branch:
  assumes "contains ''Resource Type:'' line"
    and "\<not> list_ex (\<lambda>(m, k). contains m line) (take 6 field_markers)"
  shows "line_branch line = Some (''Type:'', ''type'')"
proof -
  from assms(1) have "contains ''Type:'' line" by (rule contains_Resource_Type)
  with assms(2) show ?thesis by (simp add: line_branch_chain field_markers_def)
qed

text \<open>
  Claim C10: for every input text no record of the parser has a key \<open>resource_class\<close> or
  \<open>resource_type\<close>, and no processed record has one either, since the empty default is
  removed with the empty values. A line that contains \<open>Resource Class:\<close> contains
  \<open>Class:\<close> (and likewise for \<open>Type:\<close>), which the chain tests before, so the two
  branches are never taken; when none of the markers before \<open>Class:\<close> (before \<open>Type:\<close>)
  is in the line, the branch taken is the one of \<open>class\<close> (of \<open>type\<close>).
\<close>

theorem resource_class_and_type_never_stored:
  "(\<forall>r \<in> set (parse_errpt stdout).
       ''resource_class'' \<notin> fst ` set r \<and> ''resource_type'' \<notin> fst ` set r)
   \<and> (\<forall>r \<in> set (process_errpt_data (parse_errpt stdout) cfg).
         map_of r ''resource_class'' = None \<and> map_of r ''resource_type'' = None)
   \<and> (contains ''Resource Class:'' line \<longrightarrow> contains ''Class:'' line)
   \<and> (contains ''Resource Type:'' line \<longrightarrow> contains ''Type:'' line)
   \<and> line_branch line \<noteq> Some (''Resource Class:'', ''resource_class'')
   \<and> line_branch line \<noteq> Some (''Resource Type:'', ''resource_type'')
   \<and> (contains ''Resource Class:'' line
        \<and> \<not> list_ex (\<lambda>(m, k). contains m line) (take 5 field_markers)
        \<longrightarrow> line_branch line = Some (''Class:'', ''class''))
   \<and> (contains ''Resource Type:'' line
        \<and> \<not> list_ex (\<lambda>(m, k). contains m line) (take 6 field_markers)
        \<longrightarrow> line_branch line = Some (''Type:'', ''type''))"
proof -
  have raw: "\<forall>r \<in> set (parse_errpt stdout).
       ''resource_class'' \<notin> fst ` set r \<and> ''resource_type'' \<notin> fst ` set r"
    using parse_errpt_no_resource_keys by blast
  have processed: "\<forall>r \<in> set (process_errpt_data (parse_errpt stdout) cfg).
         map_of r ''resource_class'' = None \<and> map_of r ''resource_type'' = None"
  proof
    fix r
    assume "r \<in> set (process_errpt_data (parse_errpt stdout) cfg)"
    then obtain e where e: "e \<in> set (parse_errpt stdout)" and r: "r = process_errpt_entry cfg e"
      by (auto simp: process_errpt_data_def)
    from raw e have "''resource_class'' \<notin> fst ` set e \<and> ''resource_type'' \<notin> fst ` set e"
      by blast
    then show "map_of r ''resource_class'' = None \<and> map_of r ''resource_type'' = None"
      unfolding r by (rule processed_absent_key)
  qed
  have c1: "contains ''Resource Class:'' line \<longrightarrow> contains ''Class:'' line"
    using contains_Resource_Class by blast
  have c2: "contains ''Resource Type:'' line \<longrightarrow> contains ''Type:'' line"
    using contains_Resource_Type by blast
  note n1 = line_branch_not_resource_class [of line]
  note n2 = line_branch_not_resource_type [of line]
  have b1: "contains ''Resource Class:'' line
        \<and> \<not> list_ex (\<lambda>(m, k). contains m line) (take 5 field_markers)
        \<longrightarrow> line_branch line = Some (''Class:'', ''class'')"
    using class_branch [of line] by blast
  have b2: "contains ''Resource Type:'' line
        \<and> \<not> list_ex (\<lambda>(m, k). contains m line) (take 6 field_markers)
        \<longrightarrow> line_branch line = Some (''Type:'', ''type'')"
    using type_branch [of line] by blast
  from raw processed c1 c2 n1 n2 b1 b2 show ?thesis by (intro conjI)
qed

lemma parse_resource_class_line:
  "parse_errpt ''Resource Class: disk'' = [[(''class'', ''disk'')]]"
  by (simp add: parse_errpt_def str_split_def newline_def strip_def isspace_def
      store_line_def line_branch_def field_markers_def)

theorem resource_class_and_type_never_stored_witness:
  "parse_errpt ''Resource Class: disk'' = [[(''class'', ''disk'')]]
   \<and> ''resource_class'' \<notin> fst ` set [(''class'', ''disk'')]
   \<and> map_of (process_errpt_entry \<lparr>name = ''aix1'', hostname = ''aix1.example.org''\<rparr>
                [(''class'', ''disk'')]) ''resource_class'' = None
   \<and> contains ''Resource Class:'' ''Resource Class: disk''
   \<and> contains ''Class:'' ''Resource Class: disk''
   \<and> \<not> list_ex (\<lambda>(m, k). contains m ''Resource Class: disk'') (take 5 field_markers)
   \<and> line_branch ''Resource Class: disk'' = Some (''Class:'', ''class'')
   \<and> contains ''Resource Type:'' ''Resource Type: scsi''
   \<and> \<not> list_ex (\<lambda>(m, k). contains m ''Resource Type: scsi'') (take 6 field_markers)
   \<and> line_branch ''Resource Type: scsi'' = Some (''Type:'', ''type'')"
proof -
  have c: "contains ''Resource Class:'' ''Resource Class: disk''" by simp
  have n: "\<not> list_ex (\<lambda>(m, k). contains m ''Resource Class: disk'') (take 5 field_markers)"
    by (simp add: field_markers_def)
  have c': "contains ''Resource Type:'' ''Resource Type: scsi''" by simp
  have n': "\<not> list_ex (\<lambda>(m, k). contains m ''Resource Type: scsi'') (take 6 field_markers)"
    by (simp add: field_markers_def)
  show ?thesis
    using c n c' n'
      resource_class_and_type_never_stored
        [of "''Resource Class: disk''" "\<lparr>name = ''aix1'', hostname = ''aix1.example.org''\<rparr>"
            "''Resource Class: disk''"]
      resource_class_and_type_never_stored
        [of "''Resource Class: disk''" "\<lparr>name = ''aix1'', hostname = ''aix1.example.org''\<rparr>"
            "''Resource Type: scsi''"]
    by (simp add: parse_resource_class_line process_errpt_data_def)
qed

section \<open>Empty values are removed\<close>

lemma processed_errpt_truthy:
  assumes "r \<in> set (process_errpt_data errpt_data cfg)" and "(k, v) \<in> set r"
  shows "truthy v"
proof -
  from assms(1) obtain e where "r = clean_empty (errpt_processed_entry cfg e)"
    by (auto simp: process_errpt_data_def process_errpt_entry_def)
  with assms(2) show ?thesis by (simp add: clean_empty_truthy)
qed

lemma processed_syslog_truthy:
  assumes "r \<in> set (process_syslog_data syslog_data cfg)" and "(k, v) \<in> set r"
  shows "truthy v"
proof -
  from assms(1) obtain e where "r = clean_empty (syslog_processed_entry cfg e)"
    by (auto simp: process_syslog_data_def process_syslog_entry_def)
  with assms(2) show ?thesis by (simp add: clean_empty_truthy)
qed

lemma parse_identifier_line:
  "parse_errpt ''IDENTIFIER: ABC123'' = [[(''error_id'', ''ABC123'')]]"
  by (simp add: parse_errpt_def str_split_def newline_def strip_def isspace_def
      store_line_def line_branch_def field_markers_def)

lemma process_identifier_entry:
  "process_errpt_entry \<lparr>name = ''aix1'', hostname = ''aix1.example.org''\<rparr>
     [(''error_id'', ''ABC123'')]
   = [(''severity'', PyStr ''L''), (''error_id'', PyStr ''ABC123''),
      (''server_name'', PyStr ''aix1''), (''hostname'', PyStr ''aix1.example.org'')]"
  by (simp add: process_errpt_entry_def errpt_processed_entry_def clean_empty_def dict_get_def
      severity_ABC123)

text \<open>
  Claim C5: in every record that the processing of error reports or of system logs
  produces, after the server name and the host name are merged in, no key has a falsy
  value: no value is the empty string, zero or null. A key of the dictionary built for
  the record is in the final record exactly when its value is truthy, with that value.
\<close>

theorem processed_records_have_no_falsy_value:
  "(\<forall>r \<in> set (process_errpt_data errpt_data cfg) \<union> set (process_syslog_data syslog_data cfg).
      \<forall>(k, v) \<in> set r. truthy v \<and> v \<noteq> PyStr [] \<and> v \<noteq> PyInt 0 \<and> v \<noteq> PyNone)
   \<and> map_of (process_errpt_entry cfg entry) k
       = (case map_of (errpt_processed_entry cfg entry) k of
            None \<Rightarrow> None | Some v \<Rightarrow> if truthy v then Some v else None)
   \<and> map_of (process_syslog_entry cfg sentry) k
       = (case map_of (syslog_processed_entry cfg sentry) k of
            None \<Rightarrow> None | Some v \<Rightarrow> if truthy v then Some v else None)"
proof -
  have "\<forall>r \<in> set (process_errpt_data errpt_data cfg) \<union> set (process_syslog_data syslog_data cfg).
      \<forall>(k, v) \<in> set r. truthy v \<and> v \<noteq> PyStr [] \<and> v \<noteq> PyInt 0 \<and> v \<noteq> PyNone"
    using processed_errpt_truthy processed_syslog_truthy truthy_cases by blast
  then show ?thesis
    by (simp only: process_errpt_entry_lookup process_syslog_entry_lookup simp_thms)
qed

theorem processed_records_have_no_falsy_value_witness:
  "process_errpt_data (parse_errpt ''IDENTIFIER: ABC123'')
     \<lparr>name = ''aix1'', hostname = ''aix1.example.org''\<rparr>
   = [[(''severity'', PyStr ''L''), (''error_id'', PyStr ''ABC123''),
       (''server_name'', PyStr ''aix1''), (''hostname'', PyStr ''aix1.example.org'')]]
   \<and> truthy (PyStr ''L'') \<and> truthy (PyStr ''ABC123'') \<and> truthy (PyStr ''aix1'')
   \<and> truthy (PyStr ''aix1.example.org'')
   \<and> map_of (process_errpt_entry \<lparr>name = ''aix1'', hostname = ''aix1.example.org''\<rparr>
                [(''error_id'', ''ABC123'')]) ''description'' = None"
  using processed_records_have_no_falsy_value
    [of "parse_errpt ''IDENTIFIER: ABC123''"
        "\<lparr>name = ''aix1'', hostname = ''aix1.example.org''\<rparr>" "[]"
        "[(''error_id'', ''ABC123'')]" "''description''"]
  by (simp add: parse_identifier_line process_errpt_data_def process_identifier_entry)

section \<open>A failed write\<close>

lemma collect_errpt_data_example:
  "collect_errpt_data (\<lambda>cmd. (True, ''IDENTIFIER: ABC123'', [])) ''1h''
   = [[(''error_id'', ''ABC123'')]]"
  by (simp add: collect_errpt_data_def parse_identifier_line)

lemma split_boot_ok: "str_split ''boot ok'' [newline] = [''boot ok'']"
  by (simp add: str_split_def newline_def)

lemma syslog_lines_example:
  "syslog_lines f h (\<lambda>n. ''2026-01-01T00:00:00'') (str_split ''boot ok'' [newline]) d
   = d @ [line_entry f h ''2026-01-01T00:00:00'' ''boot ok'']"
  by (simp add: split_boot_ok strip_def isspace_def)

lemma collect_syslog_data_example:
  "collect_syslog_data (\<lambda>cmd. (True, ''boot ok'', [])) (\<lambda>n. ''2026-01-01T00:00:00'') cfg None
   \<noteq> []"
  by (simp add: collect_syslog_data_def default_log_files_def syslog_lines_example)

text \<open>
  Claim C6: for both kinds of collection, when the parser produced records (so that the
  write is called) and the write of the storage collaborator returns false on them,
  \<open>collect\<close> returns a result with \<open>success\<close> false and \<open>records_collected\<close> zero, although
  the number of processed records is positive. Whether records were produced or not,
  \<open>records_collected\<close> is zero when the write returns false on the processed records.
\<close>

theorem write_failure_reports_no_records:
  "(collect_errpt_data exec ''1h'' \<noteq> []
    \<and> \<not> write_errpt_data (name cfg)
          (process_errpt_data (collect_errpt_data exec ''1h'') cfg)
    \<longrightarrow> errpt_collect exec write_errpt_data cfg
          = \<lparr>success = False, records_collected = 0,
             error_message =
               Some (''Failed to write error report data to database for '' @ name cfg)\<rparr>
        \<and> 0 < length (process_errpt_data (collect_errpt_data exec ''1h'') cfg))
   \<and> (collect_syslog_data exec clock cfg None \<noteq> []
      \<and> \<not> write_syslog_data (name cfg)
            (process_syslog_data (collect_syslog_data exec clock cfg None) cfg)
      \<longrightarrow> syslog_collect exec clock write_syslog_data cfg
            = \<lparr>success = False, records_collected = 0,
               error_message =
                 Some (''Failed to write system log data to database for '' @ name cfg)\<rparr>
          \<and> 0 < length (process_syslog_data (collect_syslog_data exec clock cfg None) cfg))
   \<and> (\<not> write_errpt_data (name cfg)
          (process_errpt_data (collect_errpt_data exec ''1h'') cfg)
      \<longrightarrow> records_collected (errpt_collect exec write_errpt_data cfg) = 0)
   \<and> (\<not> write_syslog_data (name cfg)
          (process_syslog_data (collect_syslog_data exec clock cfg None) cfg)
      \<longrightarrow> records_collected (syslog_collect exec clock write_syslog_data cfg) = 0)"
  by (simp add: errpt_collect_def syslog_collect_def Let_def process_errpt_data_def
      process_syslog_data_def)

theorem write_failure_reports_no_records_witness:
  "errpt_collect (\<lambda>cmd. (True, ''IDENTIFIER: ABC123'', [])) (\<lambda>server records. False)
     \<lparr>name = ''aix1'', hostname = ''aix1.example.org''\<rparr>
   = \<lparr>success = False, records_collected = 0,
      error_message = Some ''Failed to write error report data to database for aix1''\<rparr>
   \<and> process_errpt_data (collect_errpt_data (\<lambda>cmd. (True, ''IDENTIFIER: ABC123'', [])) ''1h'')
       \<lparr>name = ''aix1'', hostname = ''aix1.example.org''\<rparr> \<noteq> []
   \<and> syslog_collect (\<lambda>cmd. (True, ''boot ok'', [])) (\<lambda>n. ''2026-01-01T00:00:00'')
       (\<lambda>server records. False) \<lparr>name = ''aix1'', hostname = ''aix1.example.org''\<rparr>
     = \<lparr>success = False, records_collected = 0,
        error_message = Some ''Failed to write system log data to database for aix1''\<rparr>"
proof -
  have e: "collect_errpt_data (\<lambda>cmd. (True, ''IDENTIFIER: ABC123'', [])) ''1h'' \<noteq> []"
    by (simp add: collect_errpt_data_example)
  note s = collect_syslog_data_example [of "\<lparr>name = ''aix1'', hostname = ''aix1.example.org''\<rparr>"]
  show ?thesis
    using e s
      write_failure_reports_no_records
        [of "\<lambda>cmd. (True, ''IDENTIFIER: ABC123'', [])" "\<lambda>server records. False"
            "\<lparr>name = ''aix1'', hostname = ''aix1.example.org''\<rparr>"
            "\<lambda>n. ''2026-01-01T00:00:00''" "\<lambda>server records. False"]
      write_failure_reports_no_records
        [of "\<lambda>cmd. (True, ''boot ok'', [])" "\<lambda>server records. False"
            "\<lparr>name = ''aix1'', hostname = ''aix1.example.org''\<rparr>"
            "\<lambda>n. ''2026-01-01T00:00:00''" "\<lambda>server records. False"]
    by (simp add: process_errpt_data_def)
qed

section \<open>Records and blocks\<close>

lemma block_record_Nil: "block_record [] = []"
  by (simp add: block_record_def)

lemma block_record_snoc: "block_record (b @ [l]) = store_line (strip l) (block_record b)"
  by (simp add: block_record_def)

lemma parse_errpt_lines_blocks:
  "parse_errpt_lines ls (block_record b) acc
   = acc @ filter (\<lambda>r. r \<noteq> []) (map block_record (blocks_from b ls))"
proof (induction ls arbitrary: b acc)
  case Nil
  then show ?case by (simp add: block_record_Nil)
next
  case (Cons l ls)
  show ?case
  proof (cases "strip l = []")
    case blank: True
    show ?thesis
    proof (cases "block_record b = []")
      case True
      have "parse_errpt_lines (l # ls) (block_record b) acc
            = parse_errpt_lines ls (block_record b) acc"
        by (simp add: blank True)
      also have "\<dots> = acc @ filter (\<lambda>r. r \<noteq> []) (map block_record (blocks_from b ls))"
        by (rule Cons.IH)
      also have "\<dots> = acc @ filter (\<lambda>r. r \<noteq> []) (map block_record (blocks_from [] ls))"
      proof (cases "b = []")
        case True
        then show ?thesis by simp
      next
        case False
        have "parse_errpt_lines ls (block_record b) acc = parse_errpt_lines ls (block_record []) acc"
          by (simp add: True block_record_Nil)
        then show ?thesis by (simp only: Cons.IH)
      qed
      also have "\<dots> = acc @ filter (\<lambda>r. r \<noteq> []) (map block_record (blocks_from b (l # ls)))"
        by (simp add: blank True)
      finally show ?thesis .
    next
      case False
      then have b: "b \<noteq> []" by (auto simp: block_record_Nil)
      have "parse_errpt_lines (l # ls) (block_record b) acc
            = parse_errpt_lines ls (block_record []) (acc @ [block_record b])"
        by (simp add: blank False block_record_Nil)
      also have "\<dots> = (acc @ [block_record b])
                        @ filter (\<lambda>r. r \<noteq> []) (map block_record (blocks_from [] ls))"
        by (rule Cons.IH)
      also have "\<dots> = acc @ filter (\<lambda>r. r \<noteq> []) (map block_record (blocks_from b (l # ls)))"
        by (simp add: blank False b)
      finally show ?thesis .
    qed
  next
    case False
    have "parse_errpt_lines (l # ls) (block_record b) acc
          = parse_errpt_lines ls (block_record (b @ [l])) acc"
      by (simp add: False Let_def block_record_snoc)
    also have "\<dots> = acc @ filter (\<lambda>r. r \<noteq> []) (map block_record (blocks_from (b @ [l]) ls))"
      by (rule Cons.IH)
    also have "\<dots> = acc @ filter (\<lambda>r. r \<noteq> []) (map block_record (blocks_from b (l # ls)))"
      by (simp add: False)
    finally show ?thesis .
  qed
qed

lemma parse_errpt_blocks:
  "parse_errpt stdout = filter (\<lambda>r. r \<noteq> []) (map block_record (errpt_blocks stdout))"
  using parse_errpt_lines_blocks [of "str_split stdout [newline]" "[]" "[]"]
  by (simp add: parse_errpt_def errpt_blocks_def block_record_Nil)

lemma store_line_nonempty: "cur \<noteq> [] \<Longrightarrow> store_line line cur \<noteq> []"
  by (simp add: store_line_def Let_def split: option.splits)

lemma store_line_stores: "stores_field l \<Longrightarrow> store_line (strip l) cur \<noteq> []"
  by (auto simp: stores_field_def store_line_def Let_def split: option.splits)

lemma foldl_store_nonempty:
  "cur \<noteq> [] \<Longrightarrow> foldl (\<lambda>current_entry l. store_line (strip l) current_entry) cur b \<noteq> []"
  by (induction b arbitrary: cur) (simp_all add: store_line_nonempty)

lemma foldl_store_stores:
  "\<exists>l \<in> set b. stores_field l
   \<Longrightarrow> foldl (\<lambda>current_entry l. store_line (strip l) current_entry) cur b \<noteq> []"
proof (induction b arbitrary: cur)
  case Nil
  then show ?case by simp
next
  case (Cons a b)
  show ?case
  proof (cases "stores_field a")
    case True
    then have "store_line (strip a) cur \<noteq> []" by (rule store_line_stores)
    then show ?thesis by (simp add: foldl_store_nonempty)
  next
    case False
    with Cons.prems have "\<exists>l \<in> set b. stores_field l" by auto
    then have "foldl (\<lambda>current_entry l. store_line (strip l) current_entry)
                 (store_line (strip a) cur) b \<noteq> []"
      by (rule Cons.IH)
    then show ?thesis by simp
  qed
qed

lemma block_record_nonempty: "\<exists>l \<in> set b. stores_field l \<Longrightarrow> block_record b \<noteq> []"
  unfolding block_record_def by (rule foldl_store_stores)

lemma marker_keys_intro:
  assumes "(m, k) \<in> set field_markers" and "l \<in> set b" and "contains m (strip l)"
  shows "k \<in> set (marker_keys b)"
proof -
  from assms(2,3) have "list_ex (\<lambda>l. contains m (strip l)) b"
    unfolding list_ex_iff by blast
  with assms(1)
  have "(m, k) \<in> set (filter (\<lambda>(m, k). list_ex (\<lambda>l. contains m (strip l)) b) field_markers)"
    by simp
  then have "snd (m, k) \<in> snd ` set (filter (\<lambda>(m, k). list_ex (\<lambda>l. contains m (strip l)) b)
                                       field_markers)"
    by (rule imageI)
  then show ?thesis by (simp add: marker_keys_def)
qed

lemma marker_keys_elim:
  assumes "k \<in> set (marker_keys b)"
  shows "\<exists>m l. (m, k) \<in> set field_markers \<and> l \<in> set b \<and> contains m (strip l)"
proof -
  from assms obtain x
    where x: "x \<in> set (filter (\<lambda>(m, k). list_ex (\<lambda>l. contains m (strip l)) b) field_markers)"
      and k: "k = snd x"
    unfolding marker_keys_def set_map by blast
  obtain m k' where mk: "x = (m, k')" by (cases x)
  from x mk have mem: "(m, k') \<in> set field_markers"
    and ex: "list_ex (\<lambda>l. contains m (strip l)) b"
    by simp_all
  from ex obtain l where "l \<in> set b" and "contains m (strip l)"
    unfolding list_ex_iff by blast
  with mem k mk show ?thesis by auto
qed

lemma marker_keys_mono: "set (marker_keys b) \<subseteq> set (marker_keys (a # b))"
proof
  fix k
  assume "k \<in> set (marker_keys b)"
  then obtain m l where "(m, k) \<in> set field_markers" and "l \<in> set b"
    and "contains m (strip l)"
    using marker_keys_elim by blast
  then show "k \<in> set (marker_keys (a # b))"
    using marker_keys_intro [of m k l "a # b"] by simp
qed

lemma store_line_marker_keys:
  "fst ` set (store_line (strip a) cur) \<subseteq> fst ` set cur \<union> set (marker_keys (a # b))"
proof
  fix k
  assume "k \<in> fst ` set (store_line (strip a) cur)"
  with store_line_keys [of "strip a" cur]
  have "k \<in> fst ` set cur \<or> (\<exists>m. line_branch (strip a) = Some (m, k))"
    by blast
  then show "k \<in> fst ` set cur \<union> set (marker_keys (a # b))"
  proof
    assume "k \<in> fst ` set cur"
    then show ?thesis by simp
  next
    assume "\<exists>m. line_branch (strip a) = Some (m, k)"
    then obtain m where "line_branch (strip a) = Some (m, k)" ..
    then have "(m, k) \<in> set field_markers" and "contains m (strip a)"
      using line_branch_in_markers by blast+
    then have "k \<in> set (marker_keys (a # b))"
      using marker_keys_intro [of m k a "a # b"] by simp
    then show ?thesis by simp
  qed
qed

lemma foldl_store_keys:
  "fst ` set (foldl (\<lambda>current_entry l. store_line (strip l) current_entry) cur b)
   \<subseteq> fst ` set cur \<union> set (marker_keys b)"
proof (induction b arbitrary: cur)
  case Nil
  then show ?case by simp
next
  case (Cons a b)
  note step = store_line_marker_keys [of a cur b]
  note mono = marker_keys_mono [of b a]
  have "fst ` set (foldl (\<lambda>current_entry l. store_line (strip l) current_entry)
                     (store_line (strip a) cur) b)
        \<subseteq> fst ` set (store_line (strip a) cur) \<union> set (marker_keys b)"
    by (rule Cons.IH)
  with step mono
  have "fst ` set (foldl (\<lambda>current_entry l. store_line (strip l) current_entry)
                     (store_line (strip a) cur) b)
        \<subseteq> fst ` set cur \<union> set (marker_keys (a # b))"
    by blast
  then show ?case by simp
qed

lemma block_record_keys: "fst ` set (block_record b) \<subseteq> set (marker_keys b)"
  using foldl_store_keys [of "[]" b] by (simp add: block_record_def)

lemma blocks_from_blank:
  "\<forall>l \<in> set ls. strip l = [] \<Longrightarrow> blocks_from [] ls = []"
proof (induction ls)
  case Nil
  then show ?case by simp
next
  case (Cons a ls)
  from Cons.prems have a: "strip a = []" and rest: "\<forall>l \<in> set ls. strip l = []"
    by simp_all
  from rest have "blocks_from [] ls = []" by (rule Cons.IH)
  with a show ?case by simp
qed

section \<open>The records of an error report\<close>

lemma blocks_example:
  "errpt_blocks two_block_text = [[''IDENTIFIER: A1''], [''Description: d'', ''Type: t'']]"
  by (simp add: two_block_text_def errpt_blocks_def str_split_def newline_def strip_def
      isspace_def)

lemma stores_example:
  "stores_field ''IDENTIFIER: A1'' \<and> stores_field ''Description: d''"
  by (simp add: stores_field_def strip_def isspace_def line_branch_def field_markers_def
      str_split_def)

lemma block_records_example:
  "block_record [''IDENTIFIER: A1''] = [(''error_id'', ''A1'')]
   \<and> block_record [''Description: d'', ''Type: t''] = [(''description'', ''d''), (''type'', ''t'')]"
  by (simp add: block_record_def store_line_def strip_def isspace_def line_branch_def
      field_markers_def str_split_def)

lemma split_blank_example: "str_split blank_text [newline] = ['' '', [], ''  '']"
  by (simp add: blank_text_def str_split_def newline_def)

lemma strip_blank_example: "strip [] = [] \<and> strip '' '' = [] \<and> strip ''  '' = []"
  by (simp add: strip_def isspace_def)

lemma doubled_marker_blocks:
  "errpt_blocks doubled_marker_text = [[''IDENTIFIER: a IDENTIFIER: b'']]"
  by (simp add: doubled_marker_text_def errpt_blocks_def str_split_def newline_def strip_def
      isspace_def)

lemma doubled_marker_has_marker: "has_marker ''IDENTIFIER: a IDENTIFIER: b''"
  by (simp add: has_marker_def strip_def isspace_def field_markers_def)

lemma doubled_marker_parse: "parse_errpt doubled_marker_text = []"
  by (simp add: doubled_marker_text_def parse_errpt_def str_split_def newline_def strip_def
      isspace_def store_line_def line_branch_def field_markers_def)

text \<open>
  Claim C1, as stated, fails: the text \<open>IDENTIFIER: a IDENTIFIER: b\<close>
  (\<^const>\<open>doubled_marker_text\<close>) is one block whose
  line contains a known marker, and the parser yields no record for it, because the
  marker splits the line into three parts and the branch stores nothing.
\<close>

theorem doubled_marker_block_yields_no_record:
  "list_all (list_ex has_marker) (errpt_blocks doubled_marker_text)
   \<and> length (errpt_blocks doubled_marker_text) = 1
   \<and> length (parse_errpt doubled_marker_text) = 0"
  by (simp add: doubled_marker_blocks doubled_marker_has_marker doubled_marker_parse)

text \<open>
  Claim C1, amended: for every text whose blocks (maximal runs of non-blank lines) each
  have a line that stores a field, that is, a line in which the first marker of the chain
  that it contains occurs exactly once, the parser yields exactly one record for each
  block, in the order of the text: the record that the loop body builds from the lines
  of the block. The keys of that record are keys of markers that appear in the block.
  For every text the records are the non-empty ones among the records of the blocks, so
  no record is empty and none comes from a run of blank lines, and a text of blank lines
  only yields no record.
\<close>

theorem one_record_for_each_storing_block:
  "((\<forall>b \<in> set (errpt_blocks stdout). \<exists>l \<in> set b. stores_field l)
     \<longrightarrow> parse_errpt stdout = map block_record (errpt_blocks stdout)
        \<and> length (parse_errpt stdout) = length (errpt_blocks stdout)
        \<and> (\<forall>i < length (errpt_blocks stdout).
              fst ` set (parse_errpt stdout ! i) \<subseteq> set (marker_keys (errpt_blocks stdout ! i))))
   \<and> parse_errpt stdout = filter (\<lambda>r. r \<noteq> []) (map block_record (errpt_blocks stdout))
   \<and> [] \<notin> set (parse_errpt stdout)
   \<and> ((\<forall>l \<in> set (str_split stdout [newline]). strip l = []) \<longrightarrow> parse_errpt stdout = [])"
proof -
  note eq = parse_errpt_blocks [of stdout]
  have storing: "parse_errpt stdout = map block_record (errpt_blocks stdout)
        \<and> length (parse_errpt stdout) = length (errpt_blocks stdout)
        \<and> (\<forall>i < length (errpt_blocks stdout).
              fst ` set (parse_errpt stdout ! i) \<subseteq> set (marker_keys (errpt_blocks stdout ! i)))"
    if h: "\<forall>b \<in> set (errpt_blocks stdout). \<exists>l \<in> set b. stores_field l"
  proof -
    from h have "\<forall>r \<in> set (map block_record (errpt_blocks stdout)). r \<noteq> []"
      using block_record_nonempty by auto
    then have "filter (\<lambda>r. r \<noteq> []) (map block_record (errpt_blocks stdout))
               = map block_record (errpt_blocks stdout)"
      by (simp only: filter_True)
    with eq have m: "parse_errpt stdout = map block_record (errpt_blocks stdout)" by simp
    then have len: "length (parse_errpt stdout) = length (errpt_blocks stdout)" by simp
    have "\<forall>i < length (errpt_blocks stdout).
              fst ` set (parse_errpt stdout ! i) \<subseteq> set (marker_keys (errpt_blocks stdout ! i))"
      using block_record_keys by (simp add: m)
    with m len show ?thesis by blast
  qed
  have nonempty: "[] \<notin> set (parse_errpt stdout)"
    by (subst eq) simp
  have blank: "parse_errpt stdout = []"
    if "\<forall>l \<in> set (str_split stdout [newline]). strip l = []"
    using that by (simp add: eq errpt_blocks_def blocks_from_blank)
  from storing eq nonempty blank show ?thesis by blast
qed

theorem one_record_for_each_storing_block_witness:
  "errpt_blocks two_block_text = [[''IDENTIFIER: A1''], [''Description: d'', ''Type: t'']]
   \<and> stores_field ''IDENTIFIER: A1'' \<and> stores_field ''Description: d''
   \<and> parse_errpt two_block_text
     = [[(''error_id'', ''A1'')], [(''description'', ''d''), (''type'', ''t'')]]
   \<and> str_split blank_text [newline] = ['' '', [], ''  '']
   \<and> strip [] = [] \<and> strip '' '' = [] \<and> strip ''  '' = []
   \<and> parse_errpt blank_text = []"
proof -
  have h: "\<forall>b \<in> set (errpt_blocks two_block_text). \<exists>l \<in> set b. stores_field l"
    by (simp add: blocks_example stores_example)
  with one_record_for_each_storing_block [of two_block_text]
  have "parse_errpt two_block_text = map block_record (errpt_blocks two_block_text)"
    by blast
  then have p: "parse_errpt two_block_text
      = [[(''error_id'', ''A1'')], [(''description'', ''d''), (''type'', ''t'')]]"
    by (simp add: blocks_example block_records_example)
  have "\<forall>l \<in> set (str_split blank_text [newline]). strip l = []"
    by (simp add: split_blank_example strip_blank_example)
  with one_record_for_each_storing_block [of blank_text]
  have q: "parse_errpt blank_text = []"
    by blast
  from p q show ?thesis
    by (simp add: blocks_example stores_example split_blank_example strip_blank_example)
qed

section \<open>The sequence number\<close>

lemma store_line_lookup:
  "map_of (store_line line cur) k'
   = (case line_branch line of
        None \<Rightarrow> map_of cur k'
      | Some (m, k) \<Rightarrow>
          if length (str_split line m) = 2 \<and> k = k'
          then Some (strip (str_split line m ! 1)) else map_of cur k')"
  by (simp add: store_line_def Let_def update_conv' split: option.splits)

lemma sequence_number_marker:
  assumes "line_branch line = Some (m, ''sequence_number'')"
  shows "m = ''Sequence Number:''"
proof -
  from assms have "(m, ''sequence_number'') \<in> set field_markers"
    by (simp add: line_branch_in_markers)
  then show ?thesis by (simp add: field_markers_def)
qed

lemma store_line_sequence_number:
  "map_of (store_line (strip l) cur) ''sequence_number''
   = (if stores_sequence_number l
      then Some (strip (str_split (strip l) ''Sequence Number:'' ! 1))
      else map_of cur ''sequence_number'')"
proof (cases "line_branch (strip l)")
  case None
  then show ?thesis by (simp add: store_line_lookup stores_sequence_number_def)
next
  case (Some mk)
  obtain m k where mk: "mk = (m, k)" by (cases mk)
  show ?thesis
  proof (cases "k = ''sequence_number''")
    case True
    with Some mk have "m = ''Sequence Number:''" by (simp add: sequence_number_marker)
    with Some mk True show ?thesis by (simp add: store_line_lookup stores_sequence_number_def)
  next
    case False
    with Some mk show ?thesis by (auto simp: store_line_lookup stores_sequence_number_def)
  qed
qed

lemma sequence_text_snoc:
  "sequence_text (b @ [l])
   = (if stores_sequence_number l
      then Some (strip (str_split (strip l) ''Sequence Number:'' ! 1))
      else sequence_text b)"
  by (cases "filter stores_sequence_number b") (simp_all add: sequence_text_def)

lemma block_record_sequence_text:
  "map_of (block_record b) ''sequence_number'' = sequence_text b"
proof (induction b rule: rev_induct)
  case Nil
  then show ?case by (simp add: block_record_Nil sequence_text_def)
next
  case (snoc l b)
  have "map_of (block_record (b @ [l])) ''sequence_number''
        = (if stores_sequence_number l
           then Some (strip (str_split (strip l) ''Sequence Number:'' ! 1))
           else map_of (block_record b) ''sequence_number'')"
    by (simp only: block_record_snoc store_line_sequence_number)
  also have "\<dots> = sequence_text (b @ [l])"
    by (simp only: snoc.IH sequence_text_snoc)
  finally show ?case .
qed

lemma processed_sequence_number:
  "map_of (errpt_processed_entry cfg entry) ''sequence_number''
   = Some (case map_of entry ''sequence_number'' of None \<Rightarrow> PyInt 0 | Some s \<Rightarrow> PyStr s)"
  by (simp add: errpt_processed_entry_def Let_def)

lemma final_sequence_number:
  "map_of (process_errpt_entry cfg entry) ''sequence_number''
   = (case map_of entry ''sequence_number'' of
        None \<Rightarrow> None | Some s \<Rightarrow> if s = [] then None else Some (PyStr s))"
  by (simp add: process_errpt_entry_lookup processed_sequence_number split: option.splits)

lemma final_sequence_number_not_int:
  "map_of (process_errpt_entry cfg entry) ''sequence_number'' \<noteq> Some (PyInt n)"
  by (simp add: final_sequence_number split: option.splits)

lemma parse_sequence_abc:
  "parse_errpt sequence_abc_text = [[(''error_id'', ''A1''), (''sequence_number'', ''abc'')]]"
  by (simp add: sequence_abc_text_def parse_errpt_def str_split_def newline_def strip_def
      isspace_def store_line_def line_branch_def field_markers_def)

lemma parse_sequence_42:
  "parse_errpt sequence_42_text = [[(''error_id'', ''A1''), (''sequence_number'', ''42'')]]"
  by (simp add: sequence_42_text_def parse_errpt_def str_split_def newline_def strip_def
      isspace_def store_line_def line_branch_def field_markers_def)

lemma spec_sequence_number_examples:
  "spec_sequence_number ''abc'' = PyInt 0 \<and> spec_sequence_number ''42'' = PyInt 42"
  by (simp add: spec_sequence_number_def digits_value_def isdigit_def digit_value_def)

text \<open>
  Claim C3, as stated, fails: for the block \<open>IDENTIFIER: A1\<close>, \<open>Sequence Number: abc\<close>
  (\<^const>\<open>sequence_abc_text\<close>) the field of the final record is the text \<open>abc\<close> and not
  the integer 0 that the specification asks for a text that does not parse; and for
  \<open>Sequence Number: 42\<close> it is the text \<open>42\<close> and not the integer 42.
\<close>

theorem sequence_number_is_not_parsed:
  "map_of (hd (process_errpt_data (parse_errpt sequence_abc_text)
                 \<lparr>name = ''aix1'', hostname = ''aix1.example.org''\<rparr>)) ''sequence_number''
     = Some (PyStr ''abc'')
   \<and> spec_sequence_number ''abc'' = PyInt 0
   \<and> PyStr ''abc'' \<noteq> spec_sequence_number ''abc''
   \<and> map_of (hd (process_errpt_data (parse_errpt sequence_42_text)
                   \<lparr>name = ''aix1'', hostname = ''aix1.example.org''\<rparr>)) ''sequence_number''
       = Some (PyStr ''42'')
   \<and> spec_sequence_number ''42'' = PyInt 42
   \<and> PyStr ''42'' \<noteq> spec_sequence_number ''42''"
  by (simp add: parse_sequence_abc parse_sequence_42 process_errpt_data_def
      final_sequence_number spec_sequence_number_examples)

text \<open>
  Claim C3, amended: for every block, the record that the parser builds holds under
  \<open>sequence_number\<close> the stripped text after the marker in the last line of the block
  that stores a sequence number, and nothing when no line does. The final record carries
  that text as a string, as it is and never as an integer, a text that is not a number
  included; the key is absent when the text is empty or no line stored it.
\<close>

theorem sequence_number_is_the_stripped_text:
  "map_of (block_record b) ''sequence_number'' = sequence_text b
   \<and> map_of (process_errpt_entry cfg (block_record b)) ''sequence_number''
       = (case sequence_text b of
            None \<Rightarrow> None | Some txt \<Rightarrow> if txt = [] then None else Some (PyStr txt))
   \<and> sequence_text (b @ [l])
       = (if stores_sequence_number l
          then Some (strip (str_split (strip l) ''Sequence Number:'' ! 1))
          else sequence_text b)
   \<and> parse_errpt stdout = filter (\<lambda>r. r \<noteq> []) (map block_record (errpt_blocks stdout))
   \<and> (\<forall>r \<in> set (process_errpt_data (parse_errpt stdout) cfg).
         map_of r ''sequence_number'' \<noteq> Some (PyInt n))"
proof -
  have a: "map_of (block_record b) ''sequence_number'' = sequence_text b"
    by (rule block_record_sequence_text)
  have c: "map_of (process_errpt_entry cfg (block_record b)) ''sequence_number''
       = (case sequence_text b of
            None \<Rightarrow> None | Some txt \<Rightarrow> if txt = [] then None else Some (PyStr txt))"
    by (simp only: final_sequence_number a)
  note d = sequence_text_snoc [of b l]
  note e = parse_errpt_blocks [of stdout]
  have f: "\<forall>r \<in> set (process_errpt_data (parse_errpt stdout) cfg).
         map_of r ''sequence_number'' \<noteq> Some (PyInt n)"
    by (auto simp: process_errpt_data_def final_sequence_number_not_int)
  from a c d e f show ?thesis by (intro conjI)
qed

theorem sequence_number_is_the_stripped_text_witness:
  "parse_errpt sequence_abc_text = [[(''error_id'', ''A1''), (''sequence_number'', ''abc'')]]
   \<and> process_errpt_data (parse_errpt sequence_abc_text)
       \<lparr>name = ''aix1'', hostname = ''aix1.example.org''\<rparr> \<noteq> []
   \<and> map_of (process_errpt_entry \<lparr>name = ''aix1'', hostname = ''aix1.example.org''\<rparr>
                [(''error_id'', ''A1''), (''sequence_number'', ''abc'')]) ''sequence_number''
     \<noteq> Some (PyInt 0)
   \<and> stores_sequence_number ''Sequence Number: abc''
   \<and> sequence_text [''IDENTIFIER: A1'', ''Sequence Number: abc''] = Some ''abc''"
proof -
  have s: "stores_sequence_number ''Sequence Number: abc''"
    by (simp add: stores_sequence_number_def strip_def isspace_def line_branch_def
        field_markers_def str_split_def)
  have t: "strip (str_split (strip ''Sequence Number: abc'') ''Sequence Number:'' ! 1) = ''abc''"
    by (simp add: strip_def isspace_def str_split_def)
  from sequence_number_is_the_stripped_text
    [of "[''IDENTIFIER: A1'']" "\<lparr>name = ''aix1'', hostname = ''aix1.example.org''\<rparr>"
        "''Sequence Number: abc''" sequence_abc_text 0]
  have "sequence_text ([''IDENTIFIER: A1''] @ [''Sequence Number: abc''])
          = (if stores_sequence_number ''Sequence Number: abc''
             then Some (strip (str_split (strip ''Sequence Number: abc'') ''Sequence Number:'' ! 1))
             else sequence_text [''IDENTIFIER: A1''])"
    and n: "\<forall>r \<in> set (process_errpt_data (parse_errpt sequence_abc_text)
                           \<lparr>name = ''aix1'', hostname = ''aix1.example.org''\<rparr>).
              map_of r ''sequence_number'' \<noteq> Some (PyInt 0)"
    by blast+
  with s t have u: "sequence_text [''IDENTIFIER: A1'', ''Sequence Number: abc''] = Some ''abc''"
    by simp
  from n have "map_of (process_errpt_entry \<lparr>name = ''aix1'', hostname = ''aix1.example.org''\<rparr>
                [(''error_id'', ''A1''), (''sequence_number'', ''abc'')]) ''sequence_number''
     \<noteq> Some (PyInt 0)"
    by (simp add: parse_sequence_abc process_errpt_data_def)
  with s u show ?thesis by (simp add: parse_sequence_abc process_errpt_data_def)
qed

section \<open>The timestamp of a system-log record\<close>

lemma contains_char: "contains [c] s = (c \<in> set s)"
  by (induction s) auto

lemma find_from_char:
  "c \<in> set s \<Longrightarrow> find_from [c] s n = int (n + length (takeWhile (\<lambda>x. x \<noteq> c) s))"
proof (induction s arbitrary: n)
  case Nil
  then show ?case by simp
next
  case (Cons x s)
  show ?case
  proof (cases "x = c")
    case True
    then show ?thesis by simp
  next
    case False
    with Cons.prems have "c \<in> set s" by simp
    then have "find_from [c] s (Suc n) = int (Suc n + length (takeWhile (\<lambda>x. x \<noteq> c) s))"
      by (rule Cons.IH)
    with False show ?thesis by simp
  qed
qed

lemma bracket_slice:
  assumes "prefix ''['' line" and "contains '']'' line"
  shows "py_slice line 1 (str_find line '']'') = takeWhile (\<lambda>c. c \<noteq> CHR '']'') (tl line)"
proof -
  from assms(1) obtain rest where line: "line = CHR ''['' # rest"
    by (cases line) auto
  from assms(2) have mem: "CHR '']'' \<in> set rest"
    by (simp add: contains_char line)
  let ?k = "length (takeWhile (\<lambda>c. c \<noteq> CHR '']'') rest)"
  have k: "?k \<le> length rest" by (rule length_takeWhile_le)
  have "str_find line '']'' = find_from '']'' rest 1"
    by (simp add: str_find_def line)
  also have "\<dots> = int (1 + ?k)"
    using mem by (rule find_from_char)
  finally have f: "str_find line '']'' = int (1 + ?k)" .
  have i1: "slice_index line 1 = 1"
    by (simp add: slice_index_def line)
  have i2: "slice_index line (int (1 + ?k)) = 1 + ?k"
    using k by (simp add: slice_index_def line)
  have "py_slice line 1 (str_find line '']'') = take ((1 + ?k) - 1) (drop 1 line)"
    by (simp only: py_slice_def f i1 i2)
  also have "\<dots> = take ?k rest"
    by (simp add: line)
  also have "\<dots> = takeWhile (\<lambda>c. c \<noteq> CHR '']'') rest"
    by (rule takeWhile_eq_take [symmetric])
  finally show ?thesis by (simp add: line)
qed

lemma line_entry_timestamp:
  "entry_timestamp (line_entry log_file host now line) = leading_bracket_text line now"
  by (simp add: line_entry_def Let_def leading_bracket_text_def bracket_slice)

lemma processed_timestamp:
  "map_of (syslog_processed_entry cfg entry) ''timestamp'' = Some (PyStr (entry_timestamp entry))"
  by (simp add: syslog_processed_entry_def Let_def)

lemma final_timestamp:
  "map_of (process_syslog_entry cfg (line_entry log_file host now line)) ''timestamp''
   = (if leading_bracket_text line now = [] then None
      else Some (PyStr (leading_bracket_text line now)))"
  by (simp add: process_syslog_entry_lookup processed_timestamp line_entry_timestamp)

lemma final_timestamp_specific_file:
  "map_of (process_syslog_entry cfg (specific_file_entry log_file host now line)) ''timestamp''
   = (if now = [] then None else Some (PyStr now))"
  by (simp add: process_syslog_entry_lookup processed_timestamp specific_file_entry_def)

lemma parsed_timestamp:
  "map_of (parse_log_message msg src) ''timestamp'' = search_timestamp msg"
  by (simp add: parse_log_message_def Let_def update_conv' split: option.splits prod.splits)

lemma embedded_timestamp_found:
  "search_timestamp embedded_timestamp_message = Some ''01/02/2024-10:11:12:123''"
  by (simp add: embedded_timestamp_message_def aix_timestamp_def isdigit_def)

lemma embedded_timestamp_bracket_text:
  "leading_bracket_text embedded_timestamp_message now = now"
  by (simp add: leading_bracket_text_def embedded_timestamp_message_def)

lemma embedded_timestamp_split:
  "str_split embedded_timestamp_message [newline] = [embedded_timestamp_message]"
  by (simp add: embedded_timestamp_message_def str_split_def newline_def)

lemma embedded_timestamp_strip:
  "strip embedded_timestamp_message = embedded_timestamp_message"
  by (simp add: embedded_timestamp_message_def strip_def isspace_def)

lemma embedded_timestamp_shape:
  "embedded_timestamp_message \<noteq> [] \<and> \<not> contains ''not_exists'' embedded_timestamp_message"
  by (simp add: embedded_timestamp_message_def)

lemma embedded_timestamp_lines:
  "syslog_lines f h (\<lambda>n. collection_time) (str_split embedded_timestamp_message [newline]) []
   = [line_entry f h collection_time embedded_timestamp_message]"
  by (simp add: embedded_timestamp_split embedded_timestamp_strip embedded_timestamp_shape)

lemma embedded_timestamp_collected:
  "collect_syslog_data (\<lambda>cmd. (True, embedded_timestamp_message, [])) (\<lambda>n. collection_time)
     cfg (Some [''/var/adm/messages''])
   = [line_entry ''/var/adm/messages'' (hostname cfg) collection_time
        embedded_timestamp_message]"
  by (simp add: collect_syslog_data_def embedded_timestamp_shape embedded_timestamp_lines)

lemma collection_time_shape:
  "collection_time \<noteq> [] \<and> collection_time \<noteq> ''01/02/2024-10:11:12:123''"
  by (simp add: collection_time_def)

text \<open>
  Claim C4: the code does not do what the claim says. The remote file
  \<open>/var/adm/messages\<close> holds the line \<open>boot [01/02/2024-10:11:12:123] done\<close>
  (\<^const>\<open>embedded_timestamp_message\<close>). The pattern search finds the bracketed AIX-style
  timestamp in the message, and \<open>_parse_log_message\<close> stores it under \<open>timestamp\<close> in its
  result; the claim gives the final record that value. The final record of the code
  holds the collection time instead, on the way through \<open>collect_syslog_data\<close> and on
  the way through \<open>collect_from_specific_file\<close>: the processing reads the timestamp of
  the raw entry and never the parsed one.
\<close>

theorem embedded_timestamp_is_not_used:
  "map (\<lambda>r. map_of r ''timestamp'')
     (process_syslog_data
        (collect_syslog_data (\<lambda>cmd. (True, embedded_timestamp_message, []))
           (\<lambda>n. collection_time) \<lparr>name = ''aix1'', hostname = ''aix1.example.org''\<rparr>
           (Some [''/var/adm/messages'']))
        \<lparr>name = ''aix1'', hostname = ''aix1.example.org''\<rparr>)
     = [Some (PyStr collection_time)]
   \<and> map_of (process_syslog_entry \<lparr>name = ''aix1'', hostname = ''aix1.example.org''\<rparr>
               (specific_file_entry ''/var/adm/messages'' ''aix1.example.org'' collection_time
                  embedded_timestamp_message)) ''timestamp''
       = Some (PyStr collection_time)
   \<and> search_timestamp embedded_timestamp_message = Some ''01/02/2024-10:11:12:123''
   \<and> map_of (parse_log_message embedded_timestamp_message ''/var/adm/messages'') ''timestamp''
       = Some ''01/02/2024-10:11:12:123''
   \<and> spec_timestamp embedded_timestamp_message collection_time = ''01/02/2024-10:11:12:123''
   \<and> collection_time \<noteq> ''01/02/2024-10:11:12:123''"
  by (simp add: embedded_timestamp_collected process_syslog_data_def final_timestamp
      final_timestamp_specific_file embedded_timestamp_bracket_text parsed_timestamp
      spec_timestamp_def embedded_timestamp_found collection_time_shape)

end
